theory Spec2Isabelle
  imports Main
begin

section \<open>JavaScript values\<close>

text \<open>
  Nullable columns are options. JavaScript's truthiness is written out: a string is falsy
  when it is null or empty, a number when it is null or zero. The operator \<open>a || b\<close>
  yields \<open>b\<close> exactly when \<open>a\<close> is falsy.
\<close>

definition truthy_str :: "string option \<Rightarrow> bool" where
  "truthy_str v = (case v of None \<Rightarrow> False | Some s \<Rightarrow> s \<noteq> [])"

definition or_str :: "string option \<Rightarrow> string \<Rightarrow> string" where
  "or_str v d = (case v of None \<Rightarrow> d | Some s \<Rightarrow> if s = [] then d else s)"

definition or_int :: "int option \<Rightarrow> int \<Rightarrow> int" where
  "or_int v d = (case v of None \<Rightarrow> d | Some n \<Rightarrow> if n = 0 then d else n)"

definition digit_char :: "nat \<Rightarrow> char" where
  "digit_char n = ''0123456789'' ! (n mod 10)"

fun show_nat :: "nat \<Rightarrow> string" where
  "show_nat n = (if n < 10 then [digit_char n] else show_nat (n div 10) @ [digit_char n])"

declare show_nat.simps [simp del]

text \<open>The decimal text a template literal prints for an integer.\<close>

definition show_int :: "int \<Rightarrow> string" where
  "show_int i = (if i < 0 then CHR ''-'' # show_nat (nat (- i)) else show_nat (nat i))"

text \<open>\<open>new Set(xs)\<close> followed by iteration: first occurrences, in insertion order.\<close>

definition set_add :: "'a list \<Rightarrow> 'a \<Rightarrow> 'a list" where
  "set_add s x = (if x \<in> set s then s else s @ [x])"

definition js_set :: "'a list \<Rightarrow> 'a list" where
  "js_set xs = foldl set_add [] xs"

section \<open>Relational state\<close>

record site =
  site_siteId :: int
  site_orgId :: string
  site_name :: string
  site_publicIp :: "string option"
  site_dnsAuthorityEnabled :: bool
  site_exitNodeId :: "int option"

record resource =
  resource_resourceId :: int
  resource_name :: string
  resource_fullDomain :: "string option"
  resource_ssl :: bool
  resource_http :: bool
  resource_sso :: bool
  resource_blockAccess :: bool
  resource_emailWhitelistEnabled :: bool
  resource_dnsAuthorityEnabled :: bool
  resource_dnsAuthorityTtl :: "int option"
  resource_dnsAuthorityRoutingPolicy :: "string option"

record target =
  target_targetId :: int
  target_resourceId :: int
  target_siteId :: int
  target_ip :: string
  target_port :: int
  target_method :: "string option"
  target_enabled :: bool
  target_priority :: "int option"

record targetHealth =
  hc_targetId :: int
  hc_hcEnabled :: bool
  hc_hcHealth :: "string option"

record newt =
  newt_newtId :: string
  newt_siteId :: "int option"

record client =
  client_clientId :: int
  client_olmId :: "string option"
  client_pubKey :: "string option"

record clientSiteAssociation =
  assoc_clientId :: int
  assoc_siteId :: int

record exitNode =
  exitNode_exitNodeId :: int
  exitNode_publicKey :: string
  exitNode_endpoint :: string

record org =
  org_orgId :: string

record whitelistEntry =
  wl_resourceId :: int
  wl_email :: string

record olm =
  olm_olmId :: string

record session =
  session_sessionId :: string
  session_sessionToken :: string
  session_userId :: string
  session_expiresAt :: int

record user =
  user_userId :: string
  user_email :: string

text \<open>
  A table is the list of its rows; a query without \<open>ORDER BY\<close> returns rows in table
  order, and a join is the nested loop over the joined tables.
\<close>

record database =
  sites :: "site list"
  resources :: "resource list"
  targets :: "target list"
  targetHealthCheck :: "targetHealth list"
  newts :: "newt list"
  clients :: "client list"
  clientSitesAssociationsCache :: "clientSiteAssociation list"
  exitNodes :: "exitNode list"
  orgs :: "org list"
  resourceWhitelist :: "whitelistEntry list"
  sessions :: "session list"
  users :: "user list"

text \<open>The recognised configuration options the controller reads.\<close>

record appConfig =
  dashboard_url :: "string option"
  server_secret :: "string option"
  clients_start_port :: int

section \<open>Messages\<close>

record DNSAuthorityTarget =
  dt_ip :: string
  dt_priority :: int
  dt_healthy :: bool
  dt_siteId :: int
  dt_siteName :: string

record DNSAuthorityConfig =
  cfg_enabled :: bool
  cfg_domain :: string
  cfg_ttl :: int
  cfg_routingPolicy :: string
  cfg_targets :: "DNSAuthorityTarget list"

text \<open>A zone of a remove message is the object \<open>{domain}\<close> alone.\<close>

datatype zone = Zone DNSAuthorityConfig | DomainOnly string

record DNSAuthorityConfigMessage =
  dm_action :: string
  dm_zones :: "zone list"

record AuthConfig =
  ac_enabled :: bool
  ac_pangolinUrl :: string
  ac_jwtPublicKey :: string
  ac_cookieName :: string
  ac_cookieDomain :: string
  ac_sessionValidationUrl :: string

record ResourceAuthConfig =
  rac_resourceId :: int
  rac_domain :: string
  rac_sso :: bool
  rac_blockAccess :: bool
  rac_emailWhitelistEnabled :: bool
  rac_allowedEmails :: "string list"
  rac_targetUrl :: string
  rac_ssl :: bool

record AuthProxyConfigMessage =
  apm_action :: string
  apm_auth :: AuthConfig
  apm_resources :: "ResourceAuthConfig list"

record exitNodeData =
  end_publicKey :: string
  end_relayPort :: int
  end_endpoint :: string
  end_siteIds :: "int list"

datatype 'c payload =
    DnsAuthority DNSAuthorityConfigMessage
  | AuthProxy AuthProxyConfigMessage
  | OlmSync "'c" "exitNodeData list"

record 'c ws_message =
  msg_type :: string
  msg_data :: "'c payload"

text \<open>
  The controller's world: the store and the log of \<open>sendToClient\<close> calls, each a
  recipient id with its message. Delivery itself is outside the controller.
\<close>

record 'c world =
  db :: database
  outbox :: "(string \<times> 'c ws_message) list"

definition sendToClient :: "string \<Rightarrow> 'c ws_message \<Rightarrow> 'c world \<Rightarrow> 'c world" where
  "sendToClient clientId m w = w\<lparr>outbox := outbox w @ [(clientId, m)]\<rparr>"

section \<open>DNS-authority reconciler\<close>

record dnsTargetRow =
  row_targetId :: int
  row_siteId :: int
  row_ip :: string
  row_port :: int
  row_enabled :: bool
  row_priority :: "int option"
  row_siteName :: string
  row_sitePublicIp :: "string option"
  row_siteDnsAuthorityEnabled :: bool
  row_hcEnabled :: "bool option"
  row_hcHealth :: "string option"

definition leftJoinHealth :: "database \<Rightarrow> target \<Rightarrow> targetHealth option list" where
  "leftJoinHealth d t =
     (case filter (\<lambda>h. hc_targetId h = target_targetId t) (targetHealthCheck d) of
        [] \<Rightarrow> [None]
      | hs \<Rightarrow> map Some hs)"

definition mkDnsTargetRow :: "target \<Rightarrow> site \<Rightarrow> targetHealth option \<Rightarrow> dnsTargetRow" where
  "mkDnsTargetRow t s h =
     \<lparr>row_targetId = target_targetId t, row_siteId = target_siteId t, row_ip = target_ip t,
      row_port = target_port t, row_enabled = target_enabled t,
      row_priority = target_priority t, row_siteName = site_name s,
      row_sitePublicIp = site_publicIp s,
      row_siteDnsAuthorityEnabled = site_dnsAuthorityEnabled s,
      row_hcEnabled = map_option hc_hcEnabled h,
      row_hcHealth = (case h of None \<Rightarrow> None | Some x \<Rightarrow> hc_hcHealth x)\<rparr>"

definition resourceTargetRows :: "database \<Rightarrow> int \<Rightarrow> dnsTargetRow list" where
  "resourceTargetRows d resourceId =
     [mkDnsTargetRow t s h.
        t \<leftarrow> targets d, target_resourceId t = resourceId,
        s \<leftarrow> sites d, target_siteId t = site_siteId s,
        h \<leftarrow> leftJoinHealth d t]"

definition validTarget :: "dnsTargetRow \<Rightarrow> bool" where
  "validTarget t \<longleftrightarrow>
     row_enabled t \<and> truthy_str (row_sitePublicIp t) \<and> row_siteDnsAuthorityEnabled t"

definition dnsTargetOf :: "dnsTargetRow \<Rightarrow> DNSAuthorityTarget" where
  "dnsTargetOf t =
     \<lparr>dt_ip = the (row_sitePublicIp t),
      dt_priority = or_int (row_priority t) 100,
      dt_healthy = (if row_hcEnabled t = Some True then row_hcHealth t = Some ''healthy''
                    else True),
      dt_siteId = row_siteId t,
      dt_siteName = (if row_siteName t = [] then ''Site '' @ show_int (row_siteId t)
                     else row_siteName t)\<rparr>"

definition selectResource :: "database \<Rightarrow> int \<Rightarrow> resource option" where
  "selectResource d resourceId =
     find (\<lambda>r. resource_resourceId r = resourceId) (resources d)"

definition buildDNSAuthorityConfig :: "database \<Rightarrow> int \<Rightarrow> DNSAuthorityConfig option" where
  "buildDNSAuthorityConfig d resourceId =
     (case selectResource d resourceId of
        None \<Rightarrow> None
      | Some resource \<Rightarrow>
          if \<not> resource_dnsAuthorityEnabled resource then None
          else if \<not> truthy_str (resource_fullDomain resource) then None
          else
            let validTargets = filter validTarget (resourceTargetRows d resourceId)
            in if length validTargets = 0 then None
               else Some \<lparr>cfg_enabled = True,
                          cfg_domain = the (resource_fullDomain resource),
                          cfg_ttl = or_int (resource_dnsAuthorityTtl resource) 60,
                          cfg_routingPolicy =
                            or_str (resource_dnsAuthorityRoutingPolicy resource) ''failover'',
                          cfg_targets = map dnsTargetOf validTargets\<rparr>)"

text \<open>Query path of the Olm recipients: targets, sites, association cache, clients.\<close>

definition dnsAuthoritySiteIds :: "database \<Rightarrow> int \<Rightarrow> int list" where
  "dnsAuthoritySiteIds d resourceId =
     [target_siteId t.
        t \<leftarrow> targets d, target_resourceId t = resourceId \<and> target_enabled t,
        s \<leftarrow> sites d, target_siteId t = site_siteId s,
        site_dnsAuthorityEnabled s \<and> truthy_str (site_publicIp s)]"

definition olmClientsOfSite :: "database \<Rightarrow> int \<Rightarrow> string option list" where
  "olmClientsOfSite d siteId =
     [client_olmId c.
        a \<leftarrow> clientSitesAssociationsCache d,
        c \<leftarrow> clients d, assoc_clientId a = client_clientId c,
        assoc_siteId a = siteId \<and> client_olmId c \<noteq> None]"

definition getDNSAuthoritySiteOlmIds :: "database \<Rightarrow> int \<Rightarrow> string list" where
  "getDNSAuthoritySiteOlmIds d resourceId =
     (case dnsAuthoritySiteIds d resourceId of
        [] \<Rightarrow> []
      | s0 # rest \<Rightarrow>
          let olmClients = foldl (\<lambda>acc s. acc @ olmClientsOfSite d s) (olmClientsOfSite d s0) rest
          in js_set (map the (filter truthy_str olmClients)))"

definition getDNSAuthoritySiteNewtIds :: "database \<Rightarrow> int \<Rightarrow> (string \<times> int) list" where
  "getDNSAuthoritySiteNewtIds d resourceId =
     filter (\<lambda>(newtId, siteId). newtId \<noteq> [])
       [(newt_newtId n, target_siteId t).
          t \<leftarrow> targets d, target_resourceId t = resourceId \<and> target_enabled t,
          s \<leftarrow> sites d, target_siteId t = site_siteId s,
          n \<leftarrow> newts d, newt_siteId n = Some (site_siteId s),
          truthy_str (site_publicIp s) \<and> site_dnsAuthorityEnabled s]"

definition sendDNSAuthorityConfigToNewt ::
  "string \<Rightarrow> DNSAuthorityConfigMessage \<Rightarrow> 'c world \<Rightarrow> 'c world" where
  "sendDNSAuthorityConfigToNewt newtId config =
     sendToClient newtId \<lparr>msg_type = ''newt/dns/authority/config'', msg_data = DnsAuthority config\<rparr>"

definition sendDNSAuthorityConfigToOlm ::
  "string \<Rightarrow> DNSAuthorityConfigMessage \<Rightarrow> 'c world \<Rightarrow> 'c world" where
  "sendDNSAuthorityConfigToOlm olmId config =
     sendToClient olmId \<lparr>msg_type = ''olm/dns/authority/config'', msg_data = DnsAuthority config\<rparr>"

text \<open>
  One iteration of either recipient loop of \<open>updateDNSAuthorityForResource\<close>: an update
  with the zone when there is one, else a remove naming the domain when the resource still
  has one, else nothing.
\<close>

definition dispatchZone ::
  "(string \<Rightarrow> DNSAuthorityConfigMessage \<Rightarrow> 'c world \<Rightarrow> 'c world) \<Rightarrow>
   DNSAuthorityConfig option \<Rightarrow> int \<Rightarrow> 'c world \<Rightarrow> string \<Rightarrow> 'c world" where
  "dispatchZone send config resourceId w agentId =
     (case config of
        Some c \<Rightarrow> send agentId \<lparr>dm_action = ''update'', dm_zones = [Zone c]\<rparr> w
      | None \<Rightarrow>
          (case selectResource (db w) resourceId of
             None \<Rightarrow> w
           | Some resource \<Rightarrow>
               if truthy_str (resource_fullDomain resource)
               then send agentId \<lparr>dm_action = ''remove'',
                                  dm_zones = [DomainOnly (the (resource_fullDomain resource))]\<rparr> w
               else w))"

definition updateDNSAuthorityForResource :: "int \<Rightarrow> 'c world \<Rightarrow> 'c world" where
  "updateDNSAuthorityForResource resourceId w =
     (let config = buildDNSAuthorityConfig (db w) resourceId;
          newtSites = getDNSAuthoritySiteNewtIds (db w) resourceId;
          w1 = foldl (dispatchZone sendDNSAuthorityConfigToNewt config resourceId) w
                 (map fst newtSites);
          olmIds = getDNSAuthoritySiteOlmIds (db w1) resourceId
      in foldl (dispatchZone sendDNSAuthorityConfigToOlm config resourceId) w1 olmIds)"

text \<open>
  \<open>onHealthCheckUpdate\<close>: the first row of targets joined with resources for each target
  id; the resource ids with DNS authority enabled go into a Set, and the second loop
  rebuilds each member of the Set.
\<close>

definition targetInfo :: "database \<Rightarrow> int \<Rightarrow> (int \<times> bool) option" where
  "targetInfo d targetId =
     (case [(target_resourceId t, resource_dnsAuthorityEnabled r).
              t \<leftarrow> targets d,
              r \<leftarrow> resources d, target_resourceId t = resource_resourceId r,
              target_targetId t = targetId] of
        [] \<Rightarrow> None
      | x # _ \<Rightarrow> Some x)"

definition affectedResourceIds :: "database \<Rightarrow> int list \<Rightarrow> int list" where
  "affectedResourceIds d targetIds =
     foldl (\<lambda>resourceIds targetId.
              case targetInfo d targetId of
                Some (resourceId, True) \<Rightarrow> set_add resourceIds resourceId
              | _ \<Rightarrow> resourceIds)
       [] targetIds"

definition onHealthCheckUpdate :: "int list \<Rightarrow> 'c world \<Rightarrow> 'c world" where
  "onHealthCheckUpdate targetIds w =
     foldl (\<lambda>w resourceId. updateDNSAuthorityForResource resourceId w) w
       (affectedResourceIds (db w) targetIds)"


section \<open>Olm sync\<close>

definition clientSites :: "database \<Rightarrow> client \<Rightarrow> site list" where
  "clientSites d c =
     [s. a \<leftarrow> clientSitesAssociationsCache d,
         s \<leftarrow> sites d, site_siteId s = assoc_siteId a,
         assoc_clientId a = client_clientId c]"

definition exitNodeSiteIds :: "site list \<Rightarrow> int \<Rightarrow> int list" where
  "exitNodeSiteIds cs exitNodeId =
     [site_siteId s. s \<leftarrow> cs, site_exitNodeId s = Some exitNodeId]"

definition exitNodesData :: "appConfig \<Rightarrow> database \<Rightarrow> client \<Rightarrow> exitNodeData list" where
  "exitNodesData conf d c =
     (let cs = clientSites d c;
          exitNodeIds = js_set (map the (filter (\<lambda>i. i \<noteq> None) (map site_exitNodeId cs)))
      in if length exitNodeIds > 0
         then [\<lparr>end_publicKey = exitNode_publicKey e,
                 end_relayPort = clients_start_port conf,
                 end_endpoint = exitNode_endpoint e,
                 end_siteIds = exitNodeSiteIds cs (exitNode_exitNodeId e)\<rparr>.
                 e \<leftarrow> exitNodes d, exitNode_exitNodeId e \<in> set exitNodeIds]
         else [])"

text \<open>
  \<open>sendDNSAuthorityZonesToOlm\<close>. The list \<open>siteIds\<close> is computed and then not read:
  the filter keeps a joined row on the site's public IP and DNS-authority flag alone.
\<close>

definition dnsResources :: "database \<Rightarrow> (int \<times> bool \<times> bool \<times> string option) list" where
  "dnsResources d =
     [(resource_resourceId r, resource_dnsAuthorityEnabled r,
       site_dnsAuthorityEnabled s, site_publicIp s).
        t \<leftarrow> targets d,
        r \<leftarrow> resources d, target_resourceId t = resource_resourceId r,
        s \<leftarrow> sites d, target_siteId t = site_siteId s,
        target_enabled t \<and> resource_dnsAuthorityEnabled r \<and> site_dnsAuthorityEnabled s]"

definition olmZones :: "database \<Rightarrow> client \<Rightarrow> DNSAuthorityConfig list" where
  "olmZones d c =
     (let associatedSites =
            [assoc_siteId a. a \<leftarrow> clientSitesAssociationsCache d,
                             assoc_clientId a = client_clientId c]
      in if length associatedSites = 0 then []
         else
           let siteIds = associatedSites;
               relevantResourceIds =
                 js_set (map fst
                   (filter (\<lambda>(resourceId, dnsAuthorityEnabled, siteDnsAuthorityEnabled, sitePublicIp).
                              truthy_str sitePublicIp \<and> siteDnsAuthorityEnabled)
                      (dnsResources d)))
           in if length relevantResourceIds = 0 then []
              else concat (map (\<lambda>resourceId.
                                  case buildDNSAuthorityConfig d resourceId of
                                    Some zoneConfig \<Rightarrow> [zoneConfig]
                                  | None \<Rightarrow> [])
                             relevantResourceIds))"

definition sendDNSAuthorityZonesToOlm :: "olm \<Rightarrow> client \<Rightarrow> 'c world \<Rightarrow> 'c world" where
  "sendDNSAuthorityZonesToOlm olm client w =
     (let zones = olmZones (db w) client
      in if length zones > 0
         then sendDNSAuthorityConfigToOlm (olm_olmId olm)
                \<lparr>dm_action = ''update'', dm_zones = map Zone zones\<rparr> w
         else w)"

text \<open>
  \<open>siteConfigurations\<close> is what \<open>buildSiteConfigurationForOlmClient\<close> returns; it is
  passed through to the sync message unchanged.
\<close>

definition sendOlmSyncMessage ::
  "appConfig \<Rightarrow> 'c \<Rightarrow> olm \<Rightarrow> client \<Rightarrow> 'c world \<Rightarrow> 'c world" where
  "sendOlmSyncMessage conf siteConfigurations olm client w =
     (let w1 = sendToClient (olm_olmId olm)
                 \<lparr>msg_type = ''olm/sync'',
                  msg_data = OlmSync siteConfigurations (exitNodesData conf (db w) client)\<rparr> w
      in sendDNSAuthorityZonesToOlm olm client w1)"

section \<open>Health-status ingestor\<close>

text \<open>
  \<open>parseInt\<close> with no radix, on strings of code units below 256: leading white space
  is skipped, one sign is read, a \<open>0x\<close> or \<open>0X\<close> prefix selects radix 16, and the
  longest run of digits of the radix is the number; no digit at all is \<open>NaN\<close> (here
  \<open>None\<close>). The result is the mathematical integer; a Number rounds it above \<open>2^53\<close>.
\<close>

definition isWhiteSpace :: "char \<Rightarrow> bool" where
  "isWhiteSpace c \<longleftrightarrow> (of_char c :: nat) \<in> {9, 10, 11, 12, 13, 32, 160}"

definition digitValue :: "char \<Rightarrow> nat option" where
  "digitValue c =
     (let n = (of_char c :: nat)
      in if 48 \<le> n \<and> n \<le> 57 then Some (n - 48)
         else if 97 \<le> n \<and> n \<le> 122 then Some (n - 87)
         else if 65 \<le> n \<and> n \<le> 90 then Some (n - 55)
         else None)"

definition isRadixDigit :: "nat \<Rightarrow> char \<Rightarrow> bool" where
  "isRadixDigit R c = (case digitValue c of Some v \<Rightarrow> v < R | None \<Rightarrow> False)"

definition digitsValue :: "nat \<Rightarrow> string \<Rightarrow> nat" where
  "digitsValue R Z = foldl (\<lambda>a c. a * R + the (digitValue c)) 0 Z"

definition parseInt :: "string \<Rightarrow> int option" where
  "parseInt input =
     (let s0 = dropWhile isWhiteSpace input;
          sign = (if s0 \<noteq> [] \<and> hd s0 = CHR ''-'' then - 1 else 1 :: int);
          s1 = (if s0 \<noteq> [] \<and> (hd s0 = CHR ''+'' \<or> hd s0 = CHR ''-'') then tl s0 else s0);
          hex = (take 2 s1 = ''0x'' \<or> take 2 s1 = ''0X'');
          R = (if hex then 16 else 10);
          s2 = (if hex then drop 2 s1 else s1);
          Z = takeWhile (isRadixDigit R) s2
      in if Z = [] then None else Some (sign * int (digitsValue R Z)))"

record TargetHealthStatus =
  hs_status :: string
  hs_lastCheck :: string
  hs_checkCount :: int
  hs_lastError :: "string option"

record ingest =
  ing_db :: database
  successCount :: nat
  errorCount :: nat
  updatedTargetIds :: "int list"

definition targetCheck :: "database \<Rightarrow> int \<Rightarrow> int \<Rightarrow> (int \<times> int) option" where
  "targetCheck d targetIdNum newtSiteId =
     (case [(target_targetId t, target_siteId t).
              t \<leftarrow> targets d,
              r \<leftarrow> resources d, target_resourceId t = resource_resourceId r,
              s \<leftarrow> sites d, target_siteId t = site_siteId s,
              target_targetId t = targetIdNum \<and> site_siteId s = newtSiteId] of
        [] \<Rightarrow> None
      | x # _ \<Rightarrow> Some x)"

definition setHcHealth :: "int \<Rightarrow> string \<Rightarrow> database \<Rightarrow> database" where
  "setHcHealth targetIdNum status d =
     d\<lparr>targetHealthCheck :=
         map (\<lambda>h. if hc_targetId h = targetIdNum then h\<lparr>hc_hcHealth := Some status\<rparr> else h)
           (targetHealthCheck d)\<rparr>"

text \<open>The body of the loop over \<open>Object.entries(data.targets)\<close>.\<close>

definition processEntry :: "int \<Rightarrow> ingest \<Rightarrow> string \<times> TargetHealthStatus \<Rightarrow> ingest" where
  "processEntry newtSiteId st e =
     (case parseInt (fst e) of
        None \<Rightarrow> st\<lparr>errorCount := errorCount st + 1\<rparr>
      | Some targetIdNum \<Rightarrow>
          (case targetCheck (ing_db st) targetIdNum newtSiteId of
             None \<Rightarrow> st\<lparr>errorCount := errorCount st + 1\<rparr>
           | Some row \<Rightarrow>
               st\<lparr>ing_db := setHcHealth targetIdNum (hs_status (snd e)) (ing_db st),
                  successCount := successCount st + 1,
                  updatedTargetIds := updatedTargetIds st @ [targetIdNum]\<rparr>))"

definition processEntries :: "int \<Rightarrow> (string \<times> TargetHealthStatus) list \<Rightarrow> ingest \<Rightarrow> ingest" where
  "processEntries newtSiteId entries st = foldl (processEntry newtSiteId) st entries"

definition handleHealthcheckStatusMessage ::
  "newt option \<Rightarrow> (string \<times> TargetHealthStatus) list option \<Rightarrow> 'c world \<Rightarrow> 'c world" where
  "handleHealthcheckStatusMessage c dataTargets w =
     (case c of
        None \<Rightarrow> w
      | Some newt \<Rightarrow>
          (case newt_siteId newt of
             None \<Rightarrow> w
           | Some siteId \<Rightarrow>
               if siteId = 0 then w
               else
                 (case dataTargets of
                    None \<Rightarrow> w
                  | Some entries \<Rightarrow>
                      let st = processEntries siteId entries
                                 \<lparr>ing_db = db w, successCount = 0, errorCount = 0,
                                  updatedTargetIds = []\<rparr>;
                          w1 = w\<lparr>db := ing_db st\<rparr>
                      in if length (updatedTargetIds st) > 0
                         then onHealthCheckUpdate (updatedTargetIds st) w1
                         else w1)))"

section \<open>Auth-proxy reconciler\<close>

text \<open>\<open>hostname.split(".")\<close>, \<open>parts.slice(-2)\<close> and \<open>join(".")\<close>.\<close>

fun splitDot :: "string \<Rightarrow> string list" where
  "splitDot [] = [[]]"
| "splitDot (c # cs) =
     (if c = CHR ''.'' then [] # splitDot cs
      else (case splitDot cs of [] \<Rightarrow> [[c]] | p # ps \<Rightarrow> (c # p) # ps))"

definition sliceLast2 :: "'a list \<Rightarrow> 'a list" where
  "sliceLast2 xs = drop (length xs - 2) xs"

fun joinDot :: "string list \<Rightarrow> string" where
  "joinDot [] = []"
| "joinDot [x] = x"
| "joinDot (x # y # ys) = x @ ''.'' @ joinDot (y # ys)"

text \<open>
  \<open>hostnameOf url\<close> stands for the platform's \<open>new URL(url).hostname\<close>, \<open>None\<close>
  when the constructor throws.
\<close>

definition extractBaseDomain :: "(string \<Rightarrow> string option) \<Rightarrow> string \<Rightarrow> string" where
  "extractBaseDomain hostnameOf url =
     (case hostnameOf url of
        None \<Rightarrow> []
      | Some hostname \<Rightarrow>
          let parts = splitDot hostname
          in if length parts \<ge> 2 then ''.'' @ joinDot (sliceLast2 parts) else hostname)"

record siteTargetRow =
  st_resourceId :: int
  st_siteId :: int
  st_targetIp :: string
  st_targetPort :: int
  st_targetMethod :: "string option"
  st_resourceName :: string
  st_fullDomain :: "string option"
  st_sso :: bool
  st_blockAccess :: bool
  st_emailWhitelistEnabled :: bool
  st_ssl :: bool
  st_http :: bool
  st_dnsAuthorityEnabled :: bool

definition siteTargets :: "database \<Rightarrow> int \<Rightarrow> siteTargetRow list" where
  "siteTargets d siteId =
     [\<lparr>st_resourceId = target_resourceId t, st_siteId = target_siteId t,
       st_targetIp = target_ip t, st_targetPort = target_port t,
       st_targetMethod = target_method t, st_resourceName = resource_name r,
       st_fullDomain = resource_fullDomain r, st_sso = resource_sso r,
       st_blockAccess = resource_blockAccess r,
       st_emailWhitelistEnabled = resource_emailWhitelistEnabled r,
       st_ssl = resource_ssl r, st_http = resource_http r,
       st_dnsAuthorityEnabled = resource_dnsAuthorityEnabled r\<rparr>.
        t \<leftarrow> targets d,
        r \<leftarrow> resources d, target_resourceId t = resource_resourceId r,
        target_siteId t = siteId \<and> target_enabled t]"

definition protectedResources :: "database \<Rightarrow> int \<Rightarrow> siteTargetRow list" where
  "protectedResources d siteId =
     filter (\<lambda>t. st_dnsAuthorityEnabled t \<and>
                  (st_sso t \<or> st_blockAccess t \<or> st_emailWhitelistEnabled t))
       (siteTargets d siteId)"

definition resourceConfigOf :: "database \<Rightarrow> siteTargetRow \<Rightarrow> ResourceAuthConfig list" where
  "resourceConfigOf d target =
     (if \<not> truthy_str (st_fullDomain target) then []
      else
        let allowedEmails =
              (if st_emailWhitelistEnabled target
               then [wl_email wl. wl \<leftarrow> resourceWhitelist d,
                                 wl_resourceId wl = st_resourceId target]
               else []);
            scheme = (if st_ssl target then ''https'' else ''http'');
            targetUrl = scheme @ ''://'' @ st_targetIp target @ '':'' @
                        show_int (st_targetPort target)
        in [\<lparr>rac_resourceId = st_resourceId target,
              rac_domain = the (st_fullDomain target),
              rac_sso = st_sso target,
              rac_blockAccess = st_blockAccess target,
              rac_emailWhitelistEnabled = st_emailWhitelistEnabled target,
              rac_allowedEmails = allowedEmails,
              rac_targetUrl = targetUrl,
              rac_ssl = st_ssl target\<rparr>])"

definition buildAuthProxyConfig ::
  "(string \<Rightarrow> string option) \<Rightarrow> appConfig \<Rightarrow> string \<Rightarrow> database \<Rightarrow> int \<Rightarrow>
   AuthProxyConfigMessage option" where
  "buildAuthProxyConfig hostnameOf conf jwtPublicKeyPem d siteId =
     (case find (\<lambda>s. site_siteId s = siteId) (sites d) of
        None \<Rightarrow> None
      | Some site \<Rightarrow>
          (case find (\<lambda>g. org_orgId g = site_orgId site) (orgs d) of
             None \<Rightarrow> None
           | Some org \<Rightarrow>
               if length (protectedResources d siteId) = 0 then None
               else if \<not> truthy_str (dashboard_url conf) then None
               else
                 let resolvedDashboardUrl = the (dashboard_url conf);
                     authConfig =
                       \<lparr>ac_enabled = True,
                        ac_pangolinUrl = resolvedDashboardUrl,
                        ac_jwtPublicKey = jwtPublicKeyPem,
                        ac_cookieName = ''p_session'',
                        ac_cookieDomain = extractBaseDomain hostnameOf resolvedDashboardUrl,
                        ac_sessionValidationUrl =
                          resolvedDashboardUrl @ ''/api/v1/auth/session/validate''\<rparr>
                 in Some \<lparr>apm_action = ''update'', apm_auth = authConfig,
                            apm_resources =
                              concat (map (resourceConfigOf d) (protectedResources d siteId))\<rparr>))"

definition sendAuthProxyConfigToNewt ::
  "string \<Rightarrow> AuthProxyConfigMessage \<Rightarrow> 'c world \<Rightarrow> 'c world" where
  "sendAuthProxyConfigToNewt newtId config =
     sendToClient newtId \<lparr>msg_type = ''newt/auth/proxy/config'', msg_data = AuthProxy config\<rparr>"

definition siteNewtId :: "database \<Rightarrow> int \<Rightarrow> string option" where
  "siteNewtId d siteId =
     (case [newt_newtId n.
              s \<leftarrow> sites d,
              n \<leftarrow> newts d, newt_siteId n = Some (site_siteId s),
              site_siteId s = siteId] of
        [] \<Rightarrow> None
      | x # _ \<Rightarrow> Some x)"

definition updateAuthProxyForSite ::
  "(string \<Rightarrow> string option) \<Rightarrow> appConfig \<Rightarrow> string \<Rightarrow> int \<Rightarrow> 'c world \<Rightarrow> 'c world" where
  "updateAuthProxyForSite hostnameOf conf jwtPublicKeyPem siteId w =
     (if \<not> truthy_str (siteNewtId (db w) siteId) then w
      else
        (case buildAuthProxyConfig hostnameOf conf jwtPublicKeyPem (db w) siteId of
           None \<Rightarrow> w
         | Some config \<Rightarrow> sendAuthProxyConfigToNewt (the (siteNewtId (db w) siteId)) config w))"

section \<open>Session validator\<close>

record request =
  cookie_p_session :: "string option"
  header_authorization :: "string option"

text \<open>\<open>s.replace(pat, "")\<close> for a non-empty string pattern: the first occurrence goes.\<close>

fun removeFirst :: "string \<Rightarrow> string \<Rightarrow> string" where
  "removeFirst pat [] = []"
| "removeFirst pat (c # cs) =
     (if take (length pat) (c # cs) = pat then drop (length pat) (c # cs)
      else c # removeFirst pat cs)"

record SessionValidationResponse =
  valid :: bool
  sv_userId :: "string option"
  sv_email :: "string option"
  sv_expiresAt :: "string option"

record http_response =
  resp_status :: nat
  resp_data :: SessionValidationResponse
  resp_success :: bool
  resp_error :: bool
  resp_message :: string

text \<open>
  A store query may throw. \<open>faults q\<close> says that query \<open>q\<close> of the handler throws; the
  handler's \<open>try\<close> turns the exception into the 500 response.
\<close>

datatype query = SessionQuery | UserQuery

definition invalidBody :: SessionValidationResponse where
  "invalidBody = \<lparr>valid = False, sv_userId = None, sv_email = None, sv_expiresAt = None\<rparr>"

definition sessionTokenOf :: "request \<Rightarrow> string option" where
  "sessionTokenOf req =
     (if truthy_str (cookie_p_session req) then cookie_p_session req
      else map_option (removeFirst ''Bearer '') (header_authorization req))"

definition selectSession :: "database \<Rightarrow> string \<Rightarrow> int \<Rightarrow> session option" where
  "selectSession d sessionToken now =
     find (\<lambda>s. session_sessionToken s = sessionToken \<and> session_expiresAt s > now) (sessions d)"

definition selectUser :: "database \<Rightarrow> string \<Rightarrow> user option" where
  "selectUser d userId = find (\<lambda>u. user_userId u = userId) (users d)"

definition internalError :: http_response where
  "internalError =
     \<lparr>resp_status = 500, resp_data = invalidBody, resp_success = False, resp_error = True,
      resp_message = ''Session validation failed''\<rparr>"

definition okInvalid :: "string \<Rightarrow> http_response" where
  "okInvalid message =
     \<lparr>resp_status = 200, resp_data = invalidBody, resp_success = True, resp_error = False,
      resp_message = message\<rparr>"

text \<open>
  \<open>toISOString\<close> is the platform's rendering of the expiry instant; it throws a
  \<open>RangeError\<close> on an instant outside the range of dates (here \<open>None\<close>). The call
  sits inside the handler's \<open>try\<close>, so the exception gives the 500 response too.
\<close>

definition validateSession ::
  "(query \<Rightarrow> bool) \<Rightarrow> (int \<Rightarrow> string option) \<Rightarrow> int \<Rightarrow> database \<Rightarrow> request \<Rightarrow>
   http_response" where
  "validateSession faults toISOString now d req =
     (if \<not> truthy_str (sessionTokenOf req) then okInvalid ''No session token provided''
      else if faults SessionQuery then internalError
      else
        (case selectSession d (the (sessionTokenOf req)) now of
           None \<Rightarrow> okInvalid ''Invalid or expired session''
         | Some session \<Rightarrow>
             if faults UserQuery then internalError
             else
               (case selectUser d (session_userId session) of
                  None \<Rightarrow> okInvalid ''User not found''
                | Some user \<Rightarrow>
                    (case toISOString (session_expiresAt session) of
                       None \<Rightarrow> internalError
                     | Some expiresAt \<Rightarrow>
                         \<lparr>resp_status = 200,
                          resp_data = \<lparr>valid = True, sv_userId = Some (user_userId user),
                                       sv_email = Some (user_email user),
                                       sv_expiresAt = Some expiresAt\<rparr>,
                          resp_success = True, resp_error = False,
                          resp_message = ''Session valid''\<rparr>))))"


section \<open>The zone targets in the specification's words\<close>

text \<open>
  Written over the tables alone. A target of resource \<open>R\<close> on site \<open>s\<close> is retained iff
  it is enabled, the site has DNS authority enabled and the site's public IP is neither
  null nor the empty string. Each retained target gives one entry per row of its health
  check, healthy unless that row has the check enabled and a health other than
  \<open>healthy\<close>, and a single healthy entry when the target has no health row. The entry
  carries the site's public IP, \<open>target.priority || 100\<close>, the site id, and the site's
  name, or \<open>Site\<close> followed by the site id when the name is empty.
\<close>

definition specHealth :: "database \<Rightarrow> target \<Rightarrow> bool list" where
  "specHealth d t =
     (if \<forall>h\<in>set (targetHealthCheck d). hc_targetId h \<noteq> target_targetId t then [True]
      else [hc_hcEnabled h \<longrightarrow> hc_hcHealth h = Some ''healthy''.
              h \<leftarrow> targetHealthCheck d, hc_targetId h = target_targetId t])"

definition specRetained :: "int \<Rightarrow> target \<Rightarrow> site \<Rightarrow> bool" where
  "specRetained R t s \<longleftrightarrow>
     target_resourceId t = R \<and> target_siteId t = site_siteId s \<and> target_enabled t \<and>
     site_dnsAuthorityEnabled s \<and> site_publicIp s \<noteq> None \<and> site_publicIp s \<noteq> Some []"

definition specZoneTargets :: "database \<Rightarrow> int \<Rightarrow> DNSAuthorityTarget list" where
  "specZoneTargets d R =
     [\<lparr>dt_ip = the (site_publicIp s),
       dt_priority = (case target_priority t of None \<Rightarrow> 100
                      | Some p \<Rightarrow> if p = 0 then 100 else p),
       dt_healthy = healthy,
       dt_siteId = site_siteId s,
       dt_siteName = (if site_name s = [] then ''Site '' @ show_int (site_siteId s)
                      else site_name s)\<rparr>.
        t \<leftarrow> targets d, s \<leftarrow> sites d, specRetained R t s, healthy \<leftarrow> specHealth d t]"

section \<open>Example state\<close>

definition site1 :: site where
  "site1 = \<lparr>site_siteId = 1, site_orgId = ''org1'', site_name = ''Site One'',
            site_publicIp = Some ''203.0.113.10'', site_dnsAuthorityEnabled = True,
            site_exitNodeId = None\<rparr>"

definition site2 :: site where
  "site2 = \<lparr>site_siteId = 2, site_orgId = ''org1'', site_name = ''Site Two'',
            site_publicIp = Some ''198.51.100.7'', site_dnsAuthorityEnabled = True,
            site_exitNodeId = None\<rparr>"

definition resource1 :: resource where
  "resource1 = \<lparr>resource_resourceId = 1, resource_name = ''svc'',
      resource_fullDomain = Some ''svc.example.com'', resource_ssl = False,
      resource_http = True, resource_sso = False, resource_blockAccess = False,
      resource_emailWhitelistEnabled = False, resource_dnsAuthorityEnabled = True,
      resource_dnsAuthorityTtl = None, resource_dnsAuthorityRoutingPolicy = Some ''failover''\<rparr>"

definition resource2 :: resource where
  "resource2 = \<lparr>resource_resourceId = 2, resource_name = ''secure'',
      resource_fullDomain = Some ''secure.example.com'', resource_ssl = False,
      resource_http = True, resource_sso = True, resource_blockAccess = False,
      resource_emailWhitelistEnabled = False, resource_dnsAuthorityEnabled = True,
      resource_dnsAuthorityTtl = Some 300, resource_dnsAuthorityRoutingPolicy = None\<rparr>"

definition target1 :: target where
  "target1 = \<lparr>target_targetId = 1, target_resourceId = 1, target_siteId = 1,
      target_ip = ''10.0.0.4'', target_port = 80, target_method = Some ''http'',
      target_enabled = True, target_priority = Some 100\<rparr>"

definition target2 :: target where
  "target2 = \<lparr>target_targetId = 12, target_resourceId = 2, target_siteId = 2,
      target_ip = ''10.0.0.5'', target_port = 8080, target_method = Some ''http'',
      target_enabled = True, target_priority = Some 100\<rparr>"

text \<open>
  Two DNS-authority sites with one resource each; the only client, owned by Olm
  \<open>olm1\<close>, is associated with site 1 and not with site 2.
\<close>

definition exampleDb :: database where
  "exampleDb =
     \<lparr>sites = [site1, site2],
      resources = [resource1, resource2],
      targets = [target1, target2],
      targetHealthCheck =
        [\<lparr>hc_targetId = 1, hc_hcEnabled = False, hc_hcHealth = Some ''unknown''\<rparr>,
         \<lparr>hc_targetId = 12, hc_hcEnabled = True, hc_hcHealth = Some ''healthy''\<rparr>],
      newts = [\<lparr>newt_newtId = ''newt1'', newt_siteId = Some 1\<rparr>,
               \<lparr>newt_newtId = ''newt2'', newt_siteId = Some 2\<rparr>],
      clients = [\<lparr>client_clientId = 1, client_olmId = Some ''olm1'',
                  client_pubKey = Some ''pk1''\<rparr>],
      clientSitesAssociationsCache = [\<lparr>assoc_clientId = 1, assoc_siteId = 1\<rparr>],
      exitNodes = [],
      orgs = [\<lparr>org_orgId = ''org1''\<rparr>],
      resourceWhitelist = [],
      sessions = [\<lparr>session_sessionId = ''s1'', session_sessionToken = ''abc'',
                   session_userId = ''u1'', session_expiresAt = 2000\<rparr>],
      users = [\<lparr>user_userId = ''u1'', user_email = ''a@x''\<rparr>]\<rparr>"

definition client1 :: client where
  "client1 = \<lparr>client_clientId = 1, client_olmId = Some ''olm1'', client_pubKey = Some ''pk1''\<rparr>"

definition exampleConfig :: appConfig where
  "exampleConfig = \<lparr>dashboard_url = Some ''https://app.example.com'', server_secret = None,
                     clients_start_port = 21820\<rparr>"

text \<open>The same configuration with no dashboard URL set.\<close>

definition configWithoutUrl :: appConfig where
  "configWithoutUrl = \<lparr>dashboard_url = None, server_secret = None, clients_start_port = 21820\<rparr>"

text \<open>What the platform's URL parser answers for the example dashboard URL.\<close>

definition exampleHostname :: "string \<Rightarrow> string option" where
  "exampleHostname url = (if url = ''https://app.example.com'' then Some ''app.example.com'' else None)"

text \<open>The example state with the protected resource's full domain removed.\<close>

definition exampleDbNoDomain :: database where
  "exampleDbNoDomain =
     exampleDb\<lparr>resources := [resource1, resource2\<lparr>resource_fullDomain := None\<rparr>]\<rparr>"

text \<open>The example state with site 1's public IP the empty string, and with its name empty.\<close>

definition exampleDbEmptyIp :: database where
  "exampleDbEmptyIp = exampleDb\<lparr>sites := [site1\<lparr>site_publicIp := Some []\<rparr>, site2]\<rparr>"

definition exampleDbNoName :: database where
  "exampleDbNoName = exampleDb\<lparr>sites := [site1\<lparr>site_name := []\<rparr>, site2]\<rparr>"

definition unhealthyReport :: TargetHealthStatus where
  "unhealthyReport = \<lparr>hs_status = ''unhealthy'', hs_lastCheck = ''2026-01-01T00:00:00Z'',
                       hs_checkCount = 3, hs_lastError = Some ''timeout''\<rparr>"

definition healthyReport :: TargetHealthStatus where
  "healthyReport = \<lparr>hs_status = ''healthy'', hs_lastCheck = ''2026-01-01T00:00:00Z'',
                     hs_checkCount = 3, hs_lastError = None\<rparr>"

definition freshIngest :: ingest where
  "freshIngest = \<lparr>ing_db = exampleDb, successCount = 0, errorCount = 0, updatedTargetIds = []\<rparr>"

definition exampleISO :: "int \<Rightarrow> string option" where
  "exampleISO t = Some ''1970-01-01T00:00:02.000Z''"

text \<open>A rendering that throws on every instant.\<close>

definition throwingISO :: "int \<Rightarrow> string option" where
  "throwingISO t = None"

definition noFaults :: "query \<Rightarrow> bool" where
  "noFaults q = False"

section \<open>Conditions in the specification's words\<close>

text \<open>
  The site hosts at least one enabled target of a resource with DNS authority enabled and
  at least one of SSO, blocked access or the e-mail allowlist.
\<close>

definition hostsProtectedTarget :: "database \<Rightarrow> int \<Rightarrow> bool" where
  "hostsProtectedTarget d siteId \<longleftrightarrow>
     (\<exists>t\<in>set (targets d). target_siteId t = siteId \<and> target_enabled t \<and>
        (\<exists>r\<in>set (resources d). resource_resourceId r = target_resourceId t \<and>
           resource_dnsAuthorityEnabled r \<and>
           (resource_sso r \<or> resource_blockAccess r \<or> resource_emailWhitelistEnabled r)))"

text \<open>The site row exists and so does the row of its org.\<close>

definition siteOrgExists :: "database \<Rightarrow> int \<Rightarrow> bool" where
  "siteOrgExists d siteId \<longleftrightarrow>
     (\<exists>site. find (\<lambda>s. site_siteId s = siteId) (sites d) = Some site \<and>
        (\<exists>g\<in>set (orgs d). org_orgId g = site_orgId site))"

text \<open>The key after its leading white space and one optional sign.\<close>

definition unsignedPart :: "string \<Rightarrow> string" where
  "unsignedPart input =
     (let s0 = dropWhile isWhiteSpace input
      in if s0 \<noteq> [] \<and> (hd s0 = CHR ''+'' \<or> hd s0 = CHR ''-'') then tl s0 else s0)"

text \<open>The row a query with \<open>limit(1)\<close> hands to the caller: the first one, if any.\<close>

definition firstRow :: "'a list \<Rightarrow> 'a option" where
  "firstRow rows = (case rows of [] \<Rightarrow> None | x # _ \<Rightarrow> Some x)"

text \<open>The messages one call of \<open>updateDNSAuthorityForResource\<close> sends from world \<open>w\<close>.\<close>

definition messagesOf :: "int \<Rightarrow> 'c world \<Rightarrow> (string \<times> 'c ws_message) list" where
  "messagesOf resourceId w =
     drop (length (outbox w)) (outbox (updateDNSAuthorityForResource resourceId w))"

text \<open>
  The session token in the specification's words: the \<open>p_session\<close> cookie when it is
  present and not empty; otherwise the \<open>Authorization\<close> header with the first
  occurrence of \<open>Bearer \<close> cut out, when what remains is not empty. The first occurrence
  is found by position.
\<close>

definition firstIndexOf :: "string \<Rightarrow> string \<Rightarrow> nat option" where
  "firstIndexOf pat s = find (\<lambda>i. take (length pat) (drop i s) = pat) [0..<Suc (length s)]"

definition withoutFirst :: "string \<Rightarrow> string \<Rightarrow> string" where
  "withoutFirst pat s =
     (case firstIndexOf pat s of None \<Rightarrow> s | Some i \<Rightarrow> take i s @ drop (i + length pat) s)"

definition specToken :: "request \<Rightarrow> string option" where
  "specToken req =
     (if cookie_p_session req \<noteq> None \<and> cookie_p_session req \<noteq> Some []
      then cookie_p_session req
      else (case header_authorization req of
              None \<Rightarrow> None
            | Some h \<Rightarrow> if withoutFirst ''Bearer '' h = [] then None
                        else Some (withoutFirst ''Bearer '' h)))"

section \<open>Verified properties\<close>

lemmas example_defs =
  exampleDb_def site1_def site2_def resource1_def resource2_def target1_def target2_def
  exampleDbNoDomain_def

lemmas sync_defs = sendOlmSyncMessage_def sendDNSAuthorityZonesToOlm_def olmZones_def
  dnsResources_def sendDNSAuthorityConfigToOlm_def sendToClient_def exitNodesData_def
  clientSites_def js_set_def set_add_def client1_def exampleConfig_def

lemmas parse_defs = parseInt_def isWhiteSpace_def isRadixDigit_def digitValue_def
  digitsValue_def

lemmas ingest_defs = processEntries_def processEntry_def targetCheck_def setHcHealth_def
  freshIngest_def unhealthyReport_def healthyReport_def

lemmas authProxy_defs = buildAuthProxyConfig_def updateAuthProxyForSite_def siteNewtId_def
  protectedResources_def siteTargets_def resourceConfigOf_def extractBaseDomain_def
  sliceLast2_def sendAuthProxyConfigToNewt_def sendToClient_def truthy_str_def
  exampleConfig_def configWithoutUrl_def exampleHostname_def

lemmas session_defs = validateSession_def sessionTokenOf_def selectSession_def
  selectUser_def truthy_str_def okInvalid_def internalError_def invalidBody_def
  noFaults_def exampleISO_def throwingISO_def

lemmas dns_defs = buildDNSAuthorityConfig_def selectResource_def resourceTargetRows_def
  leftJoinHealth_def mkDnsTargetRow_def validTarget_def dnsTargetOf_def truthy_str_def
  or_int_def or_str_def

subsection \<open>Building the zone configuration\<close>

lemma concat_map_filter_cong:
  "(\<And>x. x \<in> set xs \<Longrightarrow> map f (filter P (g x)) = g' x) \<Longrightarrow>
   map f (filter P (concat (map g xs))) = concat (map g' xs)"
  by (induction xs) auto

lemma concat_guard_map:
  "concat (map (\<lambda>x. if P x then [f x] else []) xs) = map f (filter P xs)"
  by (induction xs) simp_all

lemma leftJoinHealth_spec:
  "map (\<lambda>h. case h of None \<Rightarrow> True
             | Some x \<Rightarrow> hc_hcEnabled x \<longrightarrow> hc_hcHealth x = Some ''healthy'')
     (leftJoinHealth d t) = specHealth d t"
proof (cases "filter (\<lambda>h. hc_targetId h = target_targetId t) (targetHealthCheck d)")
  case Nil
  then have "\<forall>h\<in>set (targetHealthCheck d). hc_targetId h \<noteq> target_targetId t"
    by (simp add: filter_empty_conv)
  with Nil show ?thesis by (simp add: leftJoinHealth_def specHealth_def)
next
  case (Cons a as)
  have "\<not> (\<forall>h\<in>set (targetHealthCheck d). hc_targetId h \<noteq> target_targetId t)"
  proof
    assume "\<forall>h\<in>set (targetHealthCheck d). hc_targetId h \<noteq> target_targetId t"
    then have "filter (\<lambda>h. hc_targetId h = target_targetId t) (targetHealthCheck d) = []"
      by (simp add: filter_empty_conv)
    with Cons show False by simp
  qed
  then have "specHealth d t =
      map (\<lambda>h. hc_hcEnabled h \<longrightarrow> hc_hcHealth h = Some ''healthy'')
        (filter (\<lambda>h. hc_targetId h = target_targetId t) (targetHealthCheck d))"
    unfolding specHealth_def concat_guard_map by (simp only: if_False)
  then show ?thesis
    by (simp add: leftJoinHealth_def Cons comp_def)
qed


lemma find_first:
  "xs = pre @ x # post \<Longrightarrow> P x \<Longrightarrow> \<forall>y\<in>set pre. \<not> P y \<Longrightarrow> find P xs = Some x"
  by (induction pre arbitrary: xs) auto

lemma find_None_conv: "find P xs = None \<longleftrightarrow> (\<forall>x\<in>set xs. \<not> P x)"
  by (auto simp: find_None_iff)

lemma specHealth_nonempty: "specHealth d t \<noteq> []"
  using leftJoinHealth_spec[of d t, symmetric]
  by (simp add: leftJoinHealth_def split: list.splits)

lemma retained_rows:
  assumes ts: "target_siteId t = site_siteId s" and r: "target_resourceId t = R"
  shows "map dnsTargetOf (filter validTarget (map (mkDnsTargetRow t s) (leftJoinHealth d t))) =
         (if specRetained R t s
          then map (\<lambda>healthy.
               \<lparr>dt_ip = the (site_publicIp s),
                dt_priority = (case target_priority t of None \<Rightarrow> 100
                               | Some p \<Rightarrow> if p = 0 then 100 else p),
                dt_healthy = healthy,
                dt_siteId = site_siteId s,
                dt_siteName = (if site_name s = [] then ''Site '' @ show_int (site_siteId s)
                               else site_name s)\<rparr>) (specHealth d t)
          else [])"
proof -
  have v: "\<And>h. validTarget (mkDnsTargetRow t s h) = specRetained R t s"
    using ts r
    by (auto simp: validTarget_def mkDnsTargetRow_def truthy_str_def specRetained_def
             split: option.splits)
  have f: "\<And>h. dnsTargetOf (mkDnsTargetRow t s h) =
               \<lparr>dt_ip = the (site_publicIp s),
                dt_priority = (case target_priority t of None \<Rightarrow> 100
                               | Some p \<Rightarrow> if p = 0 then 100 else p),
                dt_healthy = (case h of None \<Rightarrow> True
                     | Some x \<Rightarrow> hc_hcEnabled x \<longrightarrow> hc_hcHealth x = Some ''healthy''),
                dt_siteId = site_siteId s,
                dt_siteName = (if site_name s = [] then ''Site '' @ show_int (site_siteId s)
                               else site_name s)\<rparr>"
    using ts by (auto simp: mkDnsTargetRow_def dnsTargetOf_def or_int_def split: option.splits)
  show ?thesis
  proof (cases "specRetained R t s")
    case False
    then show ?thesis by (simp add: filter_map comp_def v)
  next
    case True
    have "map dnsTargetOf (filter validTarget (map (mkDnsTargetRow t s) (leftJoinHealth d t)))
          = map (\<lambda>h. dnsTargetOf (mkDnsTargetRow t s h)) (leftJoinHealth d t)"
      by (simp add: filter_map comp_def v True)
    also have "\<dots> = map (\<lambda>healthy.
               \<lparr>dt_ip = the (site_publicIp s),
                dt_priority = (case target_priority t of None \<Rightarrow> 100
                               | Some p \<Rightarrow> if p = 0 then 100 else p),
                dt_healthy = healthy,
                dt_siteId = site_siteId s,
                dt_siteName = (if site_name s = [] then ''Site '' @ show_int (site_siteId s)
                               else site_name s)\<rparr>)
             (map (\<lambda>h. case h of None \<Rightarrow> True
                     | Some x \<Rightarrow> hc_hcEnabled x \<longrightarrow> hc_hcHealth x = Some ''healthy'')
                (leftJoinHealth d t))"
      by (simp add: f comp_def)
    finally show ?thesis by (simp only: leftJoinHealth_spec True if_True)
  qed
qed

lemma row_retained:
  "map dnsTargetOf (filter validTarget
      (if target_resourceId t = R
       then concat (map (\<lambda>s. if target_siteId t = site_siteId s
                               then map (mkDnsTargetRow t s) (leftJoinHealth d t) else [])
                      ss)
       else [])) =
   concat (map (\<lambda>s. if specRetained R t s
        then map (\<lambda>healthy.
               \<lparr>dt_ip = the (site_publicIp s),
                dt_priority = (case target_priority t of None \<Rightarrow> 100
                               | Some p \<Rightarrow> if p = 0 then 100 else p),
                dt_healthy = healthy,
                dt_siteId = site_siteId s,
                dt_siteName = (if site_name s = [] then ''Site '' @ show_int (site_siteId s)
                               else site_name s)\<rparr>) (specHealth d t)
        else []) ss)"
proof (cases "target_resourceId t = R")
  case False
  then have "\<And>s. \<not> specRetained R t s" by (simp add: specRetained_def)
  with False show ?thesis by simp
next
  case True
  have "map dnsTargetOf (filter validTarget
          (concat (map (\<lambda>s. if target_siteId t = site_siteId s
                               then map (mkDnsTargetRow t s) (leftJoinHealth d t) else [])
                      ss))) =
        concat (map (\<lambda>s. if specRetained R t s
        then map (\<lambda>healthy.
               \<lparr>dt_ip = the (site_publicIp s),
                dt_priority = (case target_priority t of None \<Rightarrow> 100
                               | Some p \<Rightarrow> if p = 0 then 100 else p),
                dt_healthy = healthy,
                dt_siteId = site_siteId s,
                dt_siteName = (if site_name s = [] then ''Site '' @ show_int (site_siteId s)
                               else site_name s)\<rparr>) (specHealth d t)
        else []) ss)"
  proof (rule concat_map_filter_cong)
    fix s :: site
    show "map dnsTargetOf (filter validTarget
            (if target_siteId t = site_siteId s
             then map (mkDnsTargetRow t s) (leftJoinHealth d t) else [])) =
          (if specRetained R t s
           then map (\<lambda>healthy.
               \<lparr>dt_ip = the (site_publicIp s),
                dt_priority = (case target_priority t of None \<Rightarrow> 100
                               | Some p \<Rightarrow> if p = 0 then 100 else p),
                dt_healthy = healthy,
                dt_siteId = site_siteId s,
                dt_siteName = (if site_name s = [] then ''Site '' @ show_int (site_siteId s)
                               else site_name s)\<rparr>) (specHealth d t)
           else [])"
    proof (cases "target_siteId t = site_siteId s")
      case False
      then have "\<not> specRetained R t s" by (simp add: specRetained_def)
      with False show ?thesis by simp
    next
      case T2: True
      have "(if target_siteId t = site_siteId s
             then map (mkDnsTargetRow t s) (leftJoinHealth d t) else []) =
            map (mkDnsTargetRow t s) (leftJoinHealth d t)"
        using T2 by simp
      then show ?thesis by (simp only: retained_rows[OF T2 True])
    qed
  qed
  moreover have "(if target_resourceId t = R
       then concat (map (\<lambda>s. if target_siteId t = site_siteId s
                               then map (mkDnsTargetRow t s) (leftJoinHealth d t) else [])
                      ss)
       else []) =
       concat (map (\<lambda>s. if target_siteId t = site_siteId s
                               then map (mkDnsTargetRow t s) (leftJoinHealth d t) else [])
                      ss)"
    using True by simp
  ultimately show ?thesis by (simp only:)
qed

lemma validTargets_spec:
  "map dnsTargetOf (filter validTarget (resourceTargetRows d R)) = specZoneTargets d R"
  unfolding resourceTargetRows_def specZoneTargets_def
  by (rule concat_map_filter_cong) (rule row_retained)

lemma concat_map_Nil_iff: "concat (map g xs) = [] \<longleftrightarrow> (\<forall>x\<in>set xs. g x = [])"
  by (induction xs) auto

lemma specZoneTargets_empty:
  "specZoneTargets d R = [] \<longleftrightarrow>
     \<not> (\<exists>t\<in>set (targets d). \<exists>s\<in>set (sites d). specRetained R t s)"
  unfolding specZoneTargets_def concat_map_Nil_iff
  by (auto simp: specHealth_nonempty)

text \<open>
  C2, as stated, fails on a site whose public IP is the empty string: in the example
  state with site 1's public IP empty, resource 1 is enabled with a domain and its target
  is enabled on a DNS-authority site whose public IP is not null, yet the builder returns
  null, because it tests the IP for truthiness. And a site with an empty name is announced
  as \<open>Site 1\<close>, not under its name.
\<close>

theorem buildDNSAuthorityConfig_truthy_counterexample:
  "target1 \<in> set (targets exampleDbEmptyIp) \<and>
   site1\<lparr>site_publicIp := Some []\<rparr> \<in> set (sites exampleDbEmptyIp) \<and>
   resource1 \<in> set (resources exampleDbEmptyIp) \<and>
   resource_resourceId resource1 = 1 \<and>
   resource_dnsAuthorityEnabled resource1 \<and>
   resource_fullDomain resource1 = Some ''svc.example.com'' \<and>
   target_resourceId target1 = 1 \<and>
   target_siteId target1 = site_siteId (site1\<lparr>site_publicIp := Some []\<rparr>) \<and>
   target_enabled target1 \<and>
   site_dnsAuthorityEnabled (site1\<lparr>site_publicIp := Some []\<rparr>) \<and>
   site_publicIp (site1\<lparr>site_publicIp := Some []\<rparr>) \<noteq> None \<and>
   buildDNSAuthorityConfig exampleDbEmptyIp 1 = None \<and>
   map site_name (sites exampleDbNoName) = [[], ''Site Two''] \<and>
   map dt_siteName (cfg_targets (the (buildDNSAuthorityConfig exampleDbNoName 1))) = [''Site 1'']"
  by (simp add: dns_defs exampleDbEmptyIp_def exampleDbNoName_def example_defs
        show_int_def show_nat.simps digit_char_def)

text \<open>
  C2, amended. \<open>buildDNSAuthorityConfig R\<close> is null when no resource row has id \<open>R\<close>.
  Otherwise, for the first row with that id, it is null iff DNS authority is disabled, or
  the full domain is null or empty, or no target of \<open>R\<close> is enabled on a site with DNS
  authority enabled and a public IP that is neither null nor empty; and else it is
  \<open>{enabled: true, domain: R.fullDomain, ttl: R.dnsAuthorityTtl || 60,
  routingPolicy: R.dnsAuthorityRoutingPolicy || "failover", targets}\<close> with the targets
  of the specification's construction: the IP is the site's public IP, \<open>healthy\<close> is
  read from the target's health rows, and an empty site name is rendered as \<open>Site\<close>
  and the site id.
\<close>

theorem buildDNSAuthorityConfig_spec:
  "((\<forall>r\<in>set (resources d). resource_resourceId r \<noteq> R) \<longrightarrow>
      buildDNSAuthorityConfig d R = None) \<and>
   (\<forall>pre res post.
      resources d = pre @ res # post \<and> resource_resourceId res = R \<and>
      (\<forall>x\<in>set pre. resource_resourceId x \<noteq> R) \<longrightarrow>
      buildDNSAuthorityConfig d R =
        (if resource_dnsAuthorityEnabled res \<and>
            resource_fullDomain res \<noteq> None \<and> resource_fullDomain res \<noteq> Some [] \<and>
            (\<exists>t\<in>set (targets d). \<exists>s\<in>set (sites d). specRetained R t s)
         then Some \<lparr>cfg_enabled = True,
                    cfg_domain = the (resource_fullDomain res),
                    cfg_ttl = (case resource_dnsAuthorityTtl res of None \<Rightarrow> 60
                               | Some n \<Rightarrow> if n = 0 then 60 else n),
                    cfg_routingPolicy = (case resource_dnsAuthorityRoutingPolicy res of
                                           None \<Rightarrow> ''failover''
                                         | Some p \<Rightarrow> if p = [] then ''failover'' else p),
                    cfg_targets = specZoneTargets d R\<rparr>
         else None))"
proof (intro conjI allI impI)
  assume "\<forall>r\<in>set (resources d). resource_resourceId r \<noteq> R"
  then have "selectResource d R = None" by (simp add: selectResource_def find_None_conv)
  then show "buildDNSAuthorityConfig d R = None" by (simp add: buildDNSAuthorityConfig_def)
next
  fix pre res post
  assume a: "resources d = pre @ res # post \<and> resource_resourceId res = R \<and>
      (\<forall>x\<in>set pre. resource_resourceId x \<noteq> R)"
  then have sel: "selectResource d R = Some res"
    unfolding selectResource_def by (intro find_first[of _ pre res post]) auto
  have t: "truthy_str (resource_fullDomain res) \<longleftrightarrow>
           resource_fullDomain res \<noteq> None \<and> resource_fullDomain res \<noteq> Some []"
    by (cases "resource_fullDomain res") (auto simp: truthy_str_def)
  have e: "filter validTarget (resourceTargetRows d R) = [] \<longleftrightarrow>
           \<not> (\<exists>t\<in>set (targets d). \<exists>s\<in>set (sites d). specRetained R t s)"
    using validTargets_spec[of d R] specZoneTargets_empty[of d R] by (metis map_is_Nil_conv)
  show "buildDNSAuthorityConfig d R =
        (if resource_dnsAuthorityEnabled res \<and>
            resource_fullDomain res \<noteq> None \<and> resource_fullDomain res \<noteq> Some [] \<and>
            (\<exists>t\<in>set (targets d). \<exists>s\<in>set (sites d). specRetained R t s)
         then Some \<lparr>cfg_enabled = True,
                    cfg_domain = the (resource_fullDomain res),
                    cfg_ttl = (case resource_dnsAuthorityTtl res of None \<Rightarrow> 60
                               | Some n \<Rightarrow> if n = 0 then 60 else n),
                    cfg_routingPolicy = (case resource_dnsAuthorityRoutingPolicy res of
                                           None \<Rightarrow> ''failover''
                                         | Some p \<Rightarrow> if p = [] then ''failover'' else p),
                    cfg_targets = specZoneTargets d R\<rparr>
         else None)"
    unfolding buildDNSAuthorityConfig_def sel Let_def
    by (simp add: t e validTargets_spec or_int_def or_str_def)
qed

text \<open>
  Scenario S1 (health check disabled: healthy whatever the recorded health), scenario S2
  (health check enabled and the target reported unhealthy: the entry stays, with
  \<open>healthy\<close> false), and a resource that does not exist.
\<close>

theorem buildDNSAuthorityConfig_spec_witness:
  "buildDNSAuthorityConfig exampleDb 1 =
     Some \<lparr>cfg_enabled = True, cfg_domain = ''svc.example.com'', cfg_ttl = 60,
           cfg_routingPolicy = ''failover'',
           cfg_targets = [\<lparr>dt_ip = ''203.0.113.10'', dt_priority = 100, dt_healthy = True,
                            dt_siteId = 1, dt_siteName = ''Site One''\<rparr>]\<rparr> \<and>
   buildDNSAuthorityConfig (setHcHealth 12 ''unhealthy'' exampleDb) 2 =
     Some \<lparr>cfg_enabled = True, cfg_domain = ''secure.example.com'', cfg_ttl = 300,
           cfg_routingPolicy = ''failover'',
           cfg_targets = [\<lparr>dt_ip = ''198.51.100.7'', dt_priority = 100, dt_healthy = False,
                            dt_siteId = 2, dt_siteName = ''Site Two''\<rparr>]\<rparr> \<and>
   buildDNSAuthorityConfig exampleDb 3 = None"
proof -
  let ?d2 = "setHcHealth 12 ''unhealthy'' exampleDb"
  have r1: "resources exampleDb = [] @ resource1 # [resource2] \<and>
            resource_resourceId resource1 = 1 \<and>
            (\<forall>x\<in>set []. resource_resourceId x \<noteq> 1)"
    by (simp add: example_defs)
  have r2: "resources ?d2 = [resource1] @ resource2 # [] \<and>
            resource_resourceId resource2 = 2 \<and>
            (\<forall>x\<in>set [resource1]. resource_resourceId x \<noteq> 2)"
    by (simp add: setHcHealth_def example_defs)
  have r3: "\<forall>r\<in>set (resources exampleDb). resource_resourceId r \<noteq> 3"
    by (simp add: example_defs)
  have z1: "specZoneTargets exampleDb 1 =
      [\<lparr>dt_ip = ''203.0.113.10'', dt_priority = 100, dt_healthy = True,
        dt_siteId = 1, dt_siteName = ''Site One''\<rparr>]"
    by (simp add: specZoneTargets_def specRetained_def specHealth_def example_defs)
  have z2: "specZoneTargets ?d2 2 =
      [\<lparr>dt_ip = ''198.51.100.7'', dt_priority = 100, dt_healthy = False,
        dt_siteId = 2, dt_siteName = ''Site Two''\<rparr>]"
    by (simp add: specZoneTargets_def specRetained_def specHealth_def setHcHealth_def
          example_defs)
  have e1: "\<exists>t\<in>set (targets exampleDb). \<exists>s\<in>set (sites exampleDb). specRetained 1 t s"
    by (simp add: specRetained_def example_defs)
  have e2: "\<exists>t\<in>set (targets ?d2). \<exists>s\<in>set (sites ?d2). specRetained 2 t s"
    by (simp add: specRetained_def setHcHealth_def example_defs)
  note T = buildDNSAuthorityConfig_spec
  have b1: "buildDNSAuthorityConfig exampleDb 1 =
     Some \<lparr>cfg_enabled = True, cfg_domain = ''svc.example.com'', cfg_ttl = 60,
           cfg_routingPolicy = ''failover'',
           cfg_targets = [\<lparr>dt_ip = ''203.0.113.10'', dt_priority = 100, dt_healthy = True,
                            dt_siteId = 1, dt_siteName = ''Site One''\<rparr>]\<rparr>"
    using T[of exampleDb 1, THEN conjunct2, rule_format, OF r1] e1 z1
    by (simp add: resource1_def)
  have b2: "buildDNSAuthorityConfig ?d2 2 =
     Some \<lparr>cfg_enabled = True, cfg_domain = ''secure.example.com'', cfg_ttl = 300,
           cfg_routingPolicy = ''failover'',
           cfg_targets = [\<lparr>dt_ip = ''198.51.100.7'', dt_priority = 100, dt_healthy = False,
                            dt_siteId = 2, dt_siteName = ''Site Two''\<rparr>]\<rparr>"
    using T[of ?d2 2, THEN conjunct2, rule_format, OF r2] e2 z2
    by (simp add: resource2_def)
  have b3: "buildDNSAuthorityConfig exampleDb 3 = None"
    using T[of exampleDb 3, THEN conjunct1] r3 by blast
  from b1 b2 b3 show ?thesis by simp
qed

subsection \<open>Dispatch\<close>

lemma set_add_distinct: "distinct s \<Longrightarrow> distinct (set_add s x)"
  by (simp add: set_add_def)

lemma set_set_add: "set (set_add s x) = insert x (set s)"
  by (auto simp: set_add_def)

lemma foldl_outbox:
  assumes "\<And>(w::'c world) a. \<exists>m. \<forall>w'::'c world. db w' = db w \<longrightarrow> f w' a = w'\<lparr>outbox := outbox w' @ m\<rparr>"
  shows "\<exists>ms. \<forall>w'. db w' = db (w::'c world) \<longrightarrow> foldl f w' as = w'\<lparr>outbox := outbox w' @ ms\<rparr>"
proof (induction as rule: rev_induct)
  case Nil
  show ?case by (rule exI[of _ "[]"]) simp
next
  case (snoc a as)
  then obtain ms where ms: "\<forall>w'. db w' = db w \<longrightarrow> foldl f w' as = w'\<lparr>outbox := outbox w' @ ms\<rparr>" by blast
  from assms[of w a] obtain m where m: "\<forall>w'. db w' = db w \<longrightarrow> f w' a = w'\<lparr>outbox := outbox w' @ m\<rparr>" by blast
  show ?case
  proof (rule exI[of _ "ms @ m"], intro allI impI)
    fix w' :: "'c world" assume d: "db w' = db w"
    have 1: "foldl f w' as = w'\<lparr>outbox := outbox w' @ ms\<rparr>" using ms d by blast
    have 2: "db (w'\<lparr>outbox := outbox w' @ ms\<rparr>) = db w" using d by simp
    show "foldl f w' (as @ [a]) = w'\<lparr>outbox := outbox w' @ ms @ m\<rparr>"
      using m 1 2 by simp
  qed
qed


lemma dispatchZone_appends:
  assumes send: "\<And>a m (v::'c world). send a m v = sendToClient a (mk m) v"
  shows "\<exists>ms. \<forall>w'::'c world. db w' = db (w::'c world) \<longrightarrow>
           dispatchZone send c r w' a = w'\<lparr>outbox := outbox w' @ ms\<rparr>"
proof (cases c)
  case (Some cfg)
  show ?thesis
    by (rule exI[of _ "[(a, mk \<lparr>dm_action = ''update'', dm_zones = [Zone cfg]\<rparr>)]"])
       (simp add: Some dispatchZone_def send sendToClient_def)
next
  case None
  show ?thesis
  proof (cases "selectResource (db w) r")
    case N2: None
    show ?thesis by (rule exI[of _ "[]"]) (simp add: None N2 dispatchZone_def)
  next
    case (Some R)
    show ?thesis
    proof (cases "truthy_str (resource_fullDomain R)")
      case True
      show ?thesis
        by (rule exI[of _ "[(a, mk \<lparr>dm_action = ''remove'',
                dm_zones = [DomainOnly (the (resource_fullDomain R))]\<rparr>)]"])
           (simp add: None Some True dispatchZone_def send sendToClient_def)
    next
      case False
      show ?thesis by (rule exI[of _ "[]"]) (simp add: None Some False dispatchZone_def)
    qed
  qed
qed

lemma update_appends:
  "\<exists>ms. \<forall>w'::'c world. db w' = db (w::'c world) \<longrightarrow>
     updateDNSAuthorityForResource r w' = w'\<lparr>outbox := outbox w' @ ms\<rparr>"
proof -
  let ?c = "buildDNSAuthorityConfig (db w) r"
  have newt: "\<And>(v::'c world) a. \<exists>m. \<forall>w'::'c world. db w' = db v \<longrightarrow>
      dispatchZone sendDNSAuthorityConfigToNewt ?c r w' a = w'\<lparr>outbox := outbox w' @ m\<rparr>"
    by (rule dispatchZone_appends) (simp add: sendDNSAuthorityConfigToNewt_def)
  have olm: "\<And>(v::'c world) a. \<exists>m. \<forall>w'::'c world. db w' = db v \<longrightarrow>
      dispatchZone sendDNSAuthorityConfigToOlm ?c r w' a = w'\<lparr>outbox := outbox w' @ m\<rparr>"
    by (rule dispatchZone_appends) (simp add: sendDNSAuthorityConfigToOlm_def)
  obtain ns where ns: "\<forall>w'::'c world. db w' = db w \<longrightarrow>
      foldl (dispatchZone sendDNSAuthorityConfigToNewt ?c r) w'
        (map fst (getDNSAuthoritySiteNewtIds (db w) r)) = w'\<lparr>outbox := outbox w' @ ns\<rparr>"
    using foldl_outbox[where f = "dispatchZone sendDNSAuthorityConfigToNewt ?c r" and w = w] newt by blast
  obtain os where os: "\<forall>w'::'c world. db w' = db w \<longrightarrow>
      foldl (dispatchZone sendDNSAuthorityConfigToOlm ?c r) w'
        (getDNSAuthoritySiteOlmIds (db w) r) = w'\<lparr>outbox := outbox w' @ os\<rparr>"
    using foldl_outbox[where f = "dispatchZone sendDNSAuthorityConfigToOlm ?c r" and w = w] olm by blast
  show ?thesis
  proof (rule exI[of _ "ns @ os"], intro allI impI)
    fix w' :: "'c world" assume d: "db w' = db w"
    have 1: "db (w'\<lparr>outbox := outbox w' @ ns\<rparr>) = db w" using d by simp
    show "updateDNSAuthorityForResource r w' = w'\<lparr>outbox := outbox w' @ ns @ os\<rparr>"
      using ns os d 1 by (simp add: updateDNSAuthorityForResource_def Let_def)
  qed
qed

text \<open>
  C7. Two back-to-back calls of \<open>updateDNSAuthorityForResource\<close> on the same resource
  leave the store as it was and send the same list of messages, to the same recipients in
  the same order, each time.
\<close>

theorem updateDNSAuthorityForResource_idempotent:
  "\<exists>ms. updateDNSAuthorityForResource r (w::'c world) = w\<lparr>outbox := outbox w @ ms\<rparr> \<and>
        updateDNSAuthorityForResource r (updateDNSAuthorityForResource r w)
          = w\<lparr>outbox := outbox w @ ms @ ms\<rparr>"
proof -
  obtain ms where ms: "\<forall>w'::'c world. db w' = db (w::'c world) \<longrightarrow>
     updateDNSAuthorityForResource r w' = w'\<lparr>outbox := outbox w' @ ms\<rparr>"
    using update_appends by blast
  have 1: "updateDNSAuthorityForResource r w = w\<lparr>outbox := outbox w @ ms\<rparr>" using ms by simp
  have 2: "db (w\<lparr>outbox := outbox w @ ms\<rparr>) = db w" by simp
  have "updateDNSAuthorityForResource r (w\<lparr>outbox := outbox w @ ms\<rparr>)
          = w\<lparr>outbox := outbox w @ ms @ ms\<rparr>" using ms 2 by simp
  with 1 show ?thesis by auto
qed

lemma affected_fold:
  "distinct acc \<Longrightarrow>
   distinct (foldl (\<lambda>resourceIds targetId.
              case targetInfo d targetId of
                Some (resourceId, True) \<Rightarrow> set_add resourceIds resourceId
              | _ \<Rightarrow> resourceIds) acc tids) \<and>
   set (foldl (\<lambda>resourceIds targetId.
              case targetInfo d targetId of
                Some (resourceId, True) \<Rightarrow> set_add resourceIds resourceId
              | _ \<Rightarrow> resourceIds) acc tids)
     = set acc \<union> {rid. \<exists>tid\<in>set tids. targetInfo d tid = Some (rid, True)}"
proof (induction tids arbitrary: acc)
  case Nil
  then show ?case by simp
next
  case (Cons t ts)
  show ?case
  proof (cases "targetInfo d t")
    case None
    with Cons show ?thesis by simp
  next
    case (Some p)
    obtain rid e where p: "p = (rid, e)" by (cases p)
    show ?thesis
    proof (cases e)
      case True
      have "distinct (set_add acc rid)" using Cons.prems by (rule set_add_distinct)
      from Cons.IH[OF this] show ?thesis
        using Some p True by (auto simp: set_set_add)
    next
      case False
      from Cons.IH[OF Cons.prems] show ?thesis
        using Some p False by auto
    qed
  qed
qed

lemma firstRow_concat:
  "firstRow (concat (map f xs)) = Some y \<longleftrightarrow>
     (\<exists>pre x post. xs = pre @ x # post \<and> (\<forall>p\<in>set pre. f p = []) \<and> firstRow (f x) = Some y)"
proof (induction xs)
  case Nil
  show ?case by (simp add: firstRow_def)
next
  case (Cons a xs)
  show ?case
  proof (cases "f a")
    case Nil
    have "(\<exists>pre x post. a # xs = pre @ x # post \<and> (\<forall>p\<in>set pre. f p = []) \<and>
             firstRow (f x) = Some y) \<longleftrightarrow>
          (\<exists>pre x post. xs = pre @ x # post \<and> (\<forall>p\<in>set pre. f p = []) \<and>
             firstRow (f x) = Some y)"
    proof
      assume "\<exists>pre x post. a # xs = pre @ x # post \<and> (\<forall>p\<in>set pre. f p = []) \<and>
             firstRow (f x) = Some y"
      then obtain pre x post where s: "a # xs = pre @ x # post" "\<forall>p\<in>set pre. f p = []"
             "firstRow (f x) = Some y" by blast
      show "\<exists>pre x post. xs = pre @ x # post \<and> (\<forall>p\<in>set pre. f p = []) \<and>
             firstRow (f x) = Some y"
      proof (cases pre)
        case Nil
        with s Cons have "x = a" by simp
        with s(3) \<open>f a = []\<close> show ?thesis by (simp add: firstRow_def)
      next
        case (Cons b pre')
        with s have "xs = pre' @ x # post" "\<forall>p\<in>set pre'. f p = []" by simp_all
        with s(3) show ?thesis by blast
      qed
    next
      assume "\<exists>pre x post. xs = pre @ x # post \<and> (\<forall>p\<in>set pre. f p = []) \<and>
             firstRow (f x) = Some y"
      then obtain pre x post where s: "xs = pre @ x # post" "\<forall>p\<in>set pre. f p = []"
             "firstRow (f x) = Some y" by blast
      then have "a # xs = (a # pre) @ x # post" "\<forall>p\<in>set (a # pre). f p = []"
        using \<open>f a = []\<close> by simp_all
      with s(3) show "\<exists>pre x post. a # xs = pre @ x # post \<and> (\<forall>p\<in>set pre. f p = []) \<and>
             firstRow (f x) = Some y" by blast
    qed
    with Nil Cons.IH show ?thesis by simp
  next
    case (Cons b bs)
    have l: "firstRow (concat (map f (a # xs))) = firstRow (f a)"
      using Cons by (simp add: firstRow_def)
    have "(\<exists>pre x post. a # xs = pre @ x # post \<and> (\<forall>p\<in>set pre. f p = []) \<and>
             firstRow (f x) = Some y) \<longleftrightarrow> firstRow (f a) = Some y"
    proof
      assume "\<exists>pre x post. a # xs = pre @ x # post \<and> (\<forall>p\<in>set pre. f p = []) \<and>
             firstRow (f x) = Some y"
      then obtain pre x post where s: "a # xs = pre @ x # post" "\<forall>p\<in>set pre. f p = []"
             "firstRow (f x) = Some y" by blast
      show "firstRow (f a) = Some y"
      proof (cases pre)
        case Nil
        with s show ?thesis by simp
      next
        case (Cons c pre')
        with s have "f a = []" by simp
        with \<open>f a = b # bs\<close> show ?thesis by simp
      qed
    next
      assume "firstRow (f a) = Some y"
      then have "a # xs = [] @ a # xs \<and> (\<forall>p\<in>set []. f p = []) \<and> firstRow (f a) = Some y"
        by simp
      then show "\<exists>pre x post. a # xs = pre @ x # post \<and> (\<forall>p\<in>set pre. f p = []) \<and>
             firstRow (f x) = Some y" by blast
    qed
    with l show ?thesis by simp
  qed
qed

lemma targetInfo_firstRow:
  "targetInfo d targetId =
     firstRow (concat (map (\<lambda>t. concat (map (\<lambda>r.
        if target_resourceId t = resource_resourceId r
        then if target_targetId t = targetId
             then [(target_resourceId t, resource_dnsAuthorityEnabled r)] else []
        else []) (resources d))) (targets d)))"
  by (simp add: targetInfo_def firstRow_def)

lemma targetInfo_tables:
  "targetInfo d tid = Some (rid, e) \<longleftrightarrow>
     (\<exists>pre t post rpre r rpost.
        targets d = pre @ t # post \<and> target_targetId t = tid \<and> target_resourceId t = rid \<and>
        (\<forall>t'\<in>set pre. target_targetId t' = tid \<longrightarrow>
           (\<forall>r'\<in>set (resources d). resource_resourceId r' \<noteq> target_resourceId t')) \<and>
        resources d = rpre @ r # rpost \<and> resource_resourceId r = rid \<and>
        (\<forall>r'\<in>set rpre. resource_resourceId r' \<noteq> rid) \<and>
        resource_dnsAuthorityEnabled r = e)"
  (is "?L \<longleftrightarrow> ?R")
proof -
  let ?G = "\<lambda>t r. if target_resourceId t = resource_resourceId r
        then if target_targetId t = tid
             then [(target_resourceId t, resource_dnsAuthorityEnabled r)] else []
        else []"
  let ?F = "\<lambda>t. concat (map (?G t) (resources d))"
  have Fnil: "\<And>t. ?F t = [] \<longleftrightarrow>
     (target_targetId t = tid \<longrightarrow>
        (\<forall>r'\<in>set (resources d). resource_resourceId r' \<noteq> target_resourceId t))"
    unfolding concat_map_Nil_iff by auto
  have Gfirst: "\<And>t r. firstRow (?G t r) = Some (rid, e) \<longleftrightarrow>
      target_resourceId t = resource_resourceId r \<and> target_targetId t = tid \<and>
      target_resourceId t = rid \<and> resource_dnsAuthorityEnabled r = e"
    by (auto simp: firstRow_def)
  have Ffirst: "\<And>t. firstRow (?F t) = Some (rid, e) \<longleftrightarrow>
     (\<exists>rpre r rpost. resources d = rpre @ r # rpost \<and>
        (\<forall>p\<in>set rpre. ?G t p = []) \<and>
        target_resourceId t = resource_resourceId r \<and> target_targetId t = tid \<and>
        target_resourceId t = rid \<and> resource_dnsAuthorityEnabled r = e)"
    unfolding firstRow_concat Gfirst ..
  have "?L \<longleftrightarrow> (\<exists>pre t post. targets d = pre @ t # post \<and> (\<forall>p\<in>set pre. ?F p = []) \<and>
                 firstRow (?F t) = Some (rid, e))"
    unfolding targetInfo_firstRow firstRow_concat ..
  also have "\<dots> \<longleftrightarrow> ?R"
    unfolding Ffirst Fnil
    by (intro iffI; elim exE conjE; intro exI conjI; (assumption | simp | force)+)
  finally show ?thesis .
qed

lemma update_messagesOf:
  assumes "db w' = db (w::'c world)"
  shows "updateDNSAuthorityForResource r w' = w'\<lparr>outbox := outbox w' @ messagesOf r w\<rparr>"
proof -
  obtain ms where ms: "\<forall>v::'c world. db v = db w \<longrightarrow>
     updateDNSAuthorityForResource r v = v\<lparr>outbox := outbox v @ ms\<rparr>"
    using update_appends by blast
  then have "updateDNSAuthorityForResource r w = w\<lparr>outbox := outbox w @ ms\<rparr>" by simp
  then have "messagesOf r w = ms" by (simp add: messagesOf_def)
  with ms assms show ?thesis by simp
qed

lemma foldl_update_messages:
  "db w' = db (w::'c world) \<Longrightarrow>
   foldl (\<lambda>v resourceId. updateDNSAuthorityForResource resourceId v) w' rs =
     w'\<lparr>outbox := outbox w' @ concat (map (\<lambda>rid. messagesOf rid w) rs)\<rparr>"
proof (induction rs arbitrary: w')
  case Nil
  show ?case by simp
next
  case (Cons r rs)
  have 1: "updateDNSAuthorityForResource r w' = w'\<lparr>outbox := outbox w' @ messagesOf r w\<rparr>"
    using Cons.prems by (rule update_messagesOf)
  have 2: "db (w'\<lparr>outbox := outbox w' @ messagesOf r w\<rparr>) = db w" using Cons.prems by simp
  show ?case using Cons.IH[OF 2] by (simp add: 1)
qed

lemma affected_set:
  "distinct (affectedResourceIds d tids) \<and>
   set (affectedResourceIds d tids) = {rid. \<exists>tid\<in>set tids. targetInfo d tid = Some (rid, True)}"
  using affected_fold[of "[]" d tids] by (auto simp add: affectedResourceIds_def)

text \<open>
  C8. \<open>onHealthCheckUpdate\<close> rebuilds each affected resource exactly once and no other
  resource. The rebuilt ids are pairwise distinct. A resource id is rebuilt iff, for some
  given target id, the first target row with that id that joins a resource row points to
  it and the first resource row with that id has DNS authority enabled; with target ids
  and resource ids unique in their tables, these are exactly the resources of the given
  targets that have DNS authority enabled. The store is left as it was, and the messages
  sent are, in order, those of one \<open>updateDNSAuthorityForResource\<close> per rebuilt id.
\<close>

theorem onHealthCheckUpdate_once_per_resource:
  "distinct (affectedResourceIds (db w) targetIds) \<and>
   (\<forall>rid. rid \<in> set (affectedResourceIds (db w) targetIds) \<longleftrightarrow>
      (\<exists>tid\<in>set targetIds. \<exists>pre t post rpre r rpost.
         targets (db w) = pre @ t # post \<and> target_targetId t = tid \<and>
         target_resourceId t = rid \<and>
         (\<forall>t'\<in>set pre. target_targetId t' = tid \<longrightarrow>
            (\<forall>r'\<in>set (resources (db w)). resource_resourceId r' \<noteq> target_resourceId t')) \<and>
         resources (db w) = rpre @ r # rpost \<and> resource_resourceId r = rid \<and>
         (\<forall>r'\<in>set rpre. resource_resourceId r' \<noteq> rid) \<and>
         resource_dnsAuthorityEnabled r)) \<and>
   (distinct (map target_targetId (targets (db w))) \<and>
    distinct (map resource_resourceId (resources (db w))) \<longrightarrow>
      set (affectedResourceIds (db w) targetIds) =
        {rid. \<exists>t\<in>set (targets (db w)). target_targetId t \<in> set targetIds \<and>
                target_resourceId t = rid \<and>
                (\<exists>r\<in>set (resources (db w)). resource_resourceId r = rid \<and>
                   resource_dnsAuthorityEnabled r)}) \<and>
   onHealthCheckUpdate targetIds w =
     w\<lparr>outbox := outbox w @
          concat (map (\<lambda>rid. messagesOf rid w) (affectedResourceIds (db w) targetIds))\<rparr>"
proof -
  let ?d = "db w"
  let ?A = "affectedResourceIds ?d targetIds"
  let ?first = "\<lambda>rid tid. \<exists>pre t post rpre r rpost.
         targets ?d = pre @ t # post \<and> target_targetId t = tid \<and>
         target_resourceId t = rid \<and>
         (\<forall>t'\<in>set pre. target_targetId t' = tid \<longrightarrow>
            (\<forall>r'\<in>set (resources ?d). resource_resourceId r' \<noteq> target_resourceId t')) \<and>
         resources ?d = rpre @ r # rpost \<and> resource_resourceId r = rid \<and>
         (\<forall>r'\<in>set rpre. resource_resourceId r' \<noteq> rid) \<and>
         resource_dnsAuthorityEnabled r"
  have d: "distinct ?A" using affected_set by blast
  have m: "\<And>rid. rid \<in> set ?A \<longleftrightarrow> (\<exists>tid\<in>set targetIds. ?first rid tid)"
    using affected_set[of ?d targetIds] targetInfo_tables[of ?d _ _ True] by auto
  have k: "set ?A =
        {rid. \<exists>t\<in>set (targets ?d). target_targetId t \<in> set targetIds \<and>
                target_resourceId t = rid \<and>
                (\<exists>r\<in>set (resources ?d). resource_resourceId r = rid \<and>
                   resource_dnsAuthorityEnabled r)}"
    if keys: "distinct (map target_targetId (targets ?d)) \<and>
              distinct (map resource_resourceId (resources ?d))"
  proof (intro set_eqI iffI)
    fix rid assume "rid \<in> set ?A"
    then have "\<exists>tid\<in>set targetIds. ?first rid tid" by (simp only: m)
    then obtain tid where tid: "tid \<in> set targetIds" and "?first rid tid" by (rule bexE)
    then show "rid \<in> {rid. \<exists>t\<in>set (targets ?d). target_targetId t \<in> set targetIds \<and>
                target_resourceId t = rid \<and>
                (\<exists>r\<in>set (resources ?d). resource_resourceId r = rid \<and>
                   resource_dnsAuthorityEnabled r)}"
    proof (elim exE conjE)
      fix pre t post rpre r rpost
      assume a: "targets ?d = pre @ t # post" "target_targetId t = tid"
        "target_resourceId t = rid" "resources ?d = rpre @ r # rpost"
        "resource_resourceId r = rid" "resource_dnsAuthorityEnabled r"
      have "t \<in> set (targets ?d)" "r \<in> set (resources ?d)" using a(1,4) by simp_all
      with a tid show ?thesis by blast
    qed
  next
    fix rid assume "rid \<in> {rid. \<exists>t\<in>set (targets ?d). target_targetId t \<in> set targetIds \<and>
                target_resourceId t = rid \<and>
                (\<exists>r\<in>set (resources ?d). resource_resourceId r = rid \<and>
                   resource_dnsAuthorityEnabled r)}"
    then obtain t r where t: "t \<in> set (targets ?d)" "target_targetId t \<in> set targetIds"
        "target_resourceId t = rid" and r: "r \<in> set (resources ?d)"
        "resource_resourceId r = rid" "resource_dnsAuthorityEnabled r" by blast
    from t(1) obtain pre post where tp: "targets ?d = pre @ t # post"
      by (meson split_list)
    from r(1) obtain rpre rpost where rp: "resources ?d = rpre @ r # rpost"
      by (meson split_list)
    have "target_targetId t \<notin> target_targetId ` set pre"
      using keys tp by simp
    then have "\<forall>t'\<in>set pre. target_targetId t' \<noteq> target_targetId t"
      by (metis imageI)
    moreover have "resource_resourceId r \<notin> resource_resourceId ` set rpre"
      using keys rp by simp
    then have "\<forall>r'\<in>set rpre. resource_resourceId r' \<noteq> rid"
      using r(2) by (metis imageI)
    ultimately have "?first rid (target_targetId t)"
      using tp rp t(3) r(2,3) by (intro exI[of _ pre] exI[of _ t] exI[of _ post]
                                   exI[of _ rpre] exI[of _ r] exI[of _ rpost]) simp
    with t(2) have "\<exists>tid\<in>set targetIds. ?first rid tid" by (rule bexI[rotated])
    then show "rid \<in> set ?A" by (simp only: m)
  qed
  have o: "onHealthCheckUpdate targetIds w =
     w\<lparr>outbox := outbox w @ concat (map (\<lambda>rid. messagesOf rid w) ?A)\<rparr>"
    unfolding onHealthCheckUpdate_def by (rule foldl_update_messages) simp
  from k have k': "distinct (map target_targetId (targets ?d)) \<and>
              distinct (map resource_resourceId (resources ?d)) \<longrightarrow> set ?A =
        {rid. \<exists>t\<in>set (targets ?d). target_targetId t \<in> set targetIds \<and>
                target_resourceId t = rid \<and>
                (\<exists>r\<in>set (resources ?d). resource_resourceId r = rid \<and>
                   resource_dnsAuthorityEnabled r)}" by (rule impI)
  from m have m': "\<forall>rid. rid \<in> set ?A \<longleftrightarrow> (\<exists>tid\<in>set targetIds. ?first rid tid)"
    by (rule allI)
  show ?thesis by (intro conjI) (rule d, rule m', rule k', rule o)
qed

text \<open>
  Targets 1 and 12 of the example, target 1 named twice, and a target that does not exist:
  resources 1 and 2 are rebuilt once each.
\<close>

lemmas dispatch_defs = updateDNSAuthorityForResource_def dispatchZone_def
  getDNSAuthoritySiteNewtIds_def getDNSAuthoritySiteOlmIds_def dnsAuthoritySiteIds_def
  olmClientsOfSite_def sendDNSAuthorityConfigToNewt_def sendDNSAuthorityConfigToOlm_def
  sendToClient_def js_set_def set_add_def

theorem onHealthCheckUpdate_once_per_resource_witness:
  "affectedResourceIds exampleDb [1, 12, 1, 99] = [1, 2] \<and>
   outbox (onHealthCheckUpdate [1, 12, 1, 99] (\<lparr>db = exampleDb, outbox = []\<rparr> :: unit world)) =
     [(''newt1'', \<lparr>msg_type = ''newt/dns/authority/config'',
         msg_data = DnsAuthority \<lparr>dm_action = ''update'', dm_zones =
           [Zone \<lparr>cfg_enabled = True, cfg_domain = ''svc.example.com'', cfg_ttl = 60,
                  cfg_routingPolicy = ''failover'',
                  cfg_targets = [\<lparr>dt_ip = ''203.0.113.10'', dt_priority = 100,
                                   dt_healthy = True, dt_siteId = 1,
                                   dt_siteName = ''Site One''\<rparr>]\<rparr>]\<rparr>\<rparr>),
      (''olm1'', \<lparr>msg_type = ''olm/dns/authority/config'',
         msg_data = DnsAuthority \<lparr>dm_action = ''update'', dm_zones =
           [Zone \<lparr>cfg_enabled = True, cfg_domain = ''svc.example.com'', cfg_ttl = 60,
                  cfg_routingPolicy = ''failover'',
                  cfg_targets = [\<lparr>dt_ip = ''203.0.113.10'', dt_priority = 100,
                                   dt_healthy = True, dt_siteId = 1,
                                   dt_siteName = ''Site One''\<rparr>]\<rparr>]\<rparr>\<rparr>),
      (''newt2'', \<lparr>msg_type = ''newt/dns/authority/config'',
         msg_data = DnsAuthority \<lparr>dm_action = ''update'', dm_zones =
           [Zone \<lparr>cfg_enabled = True, cfg_domain = ''secure.example.com'', cfg_ttl = 300,
                  cfg_routingPolicy = ''failover'',
                  cfg_targets = [\<lparr>dt_ip = ''198.51.100.7'', dt_priority = 100,
                                   dt_healthy = True, dt_siteId = 2,
                                   dt_siteName = ''Site Two''\<rparr>]\<rparr>]\<rparr>\<rparr>)]"
proof -
  let ?w = "\<lparr>db = exampleDb, outbox = []\<rparr> :: unit world"
  have a: "affectedResourceIds exampleDb [1, 12, 1, 99] = [1, 2]"
    by (simp add: affectedResourceIds_def targetInfo_def set_add_def example_defs)
  have m1: "messagesOf 1 ?w =
     [(''newt1'', \<lparr>msg_type = ''newt/dns/authority/config'',
         msg_data = DnsAuthority \<lparr>dm_action = ''update'', dm_zones =
           [Zone \<lparr>cfg_enabled = True, cfg_domain = ''svc.example.com'', cfg_ttl = 60,
                  cfg_routingPolicy = ''failover'',
                  cfg_targets = [\<lparr>dt_ip = ''203.0.113.10'', dt_priority = 100,
                                   dt_healthy = True, dt_siteId = 1,
                                   dt_siteName = ''Site One''\<rparr>]\<rparr>]\<rparr>\<rparr>),
      (''olm1'', \<lparr>msg_type = ''olm/dns/authority/config'',
         msg_data = DnsAuthority \<lparr>dm_action = ''update'', dm_zones =
           [Zone \<lparr>cfg_enabled = True, cfg_domain = ''svc.example.com'', cfg_ttl = 60,
                  cfg_routingPolicy = ''failover'',
                  cfg_targets = [\<lparr>dt_ip = ''203.0.113.10'', dt_priority = 100,
                                   dt_healthy = True, dt_siteId = 1,
                                   dt_siteName = ''Site One''\<rparr>]\<rparr>]\<rparr>\<rparr>)]"
    by (simp add: messagesOf_def dispatch_defs dns_defs example_defs)
  have m2: "messagesOf 2 ?w =
     [(''newt2'', \<lparr>msg_type = ''newt/dns/authority/config'',
         msg_data = DnsAuthority \<lparr>dm_action = ''update'', dm_zones =
           [Zone \<lparr>cfg_enabled = True, cfg_domain = ''secure.example.com'', cfg_ttl = 300,
                  cfg_routingPolicy = ''failover'',
                  cfg_targets = [\<lparr>dt_ip = ''198.51.100.7'', dt_priority = 100,
                                   dt_healthy = True, dt_siteId = 2,
                                   dt_siteName = ''Site Two''\<rparr>]\<rparr>]\<rparr>\<rparr>)]"
    by (simp add: messagesOf_def dispatch_defs dns_defs example_defs)
  have "onHealthCheckUpdate [1, 12, 1, 99] ?w =
     ?w\<lparr>outbox := outbox ?w @
          concat (map (\<lambda>rid. messagesOf rid ?w) (affectedResourceIds (db ?w) [1, 12, 1, 99]))\<rparr>"
    using onHealthCheckUpdate_once_per_resource[of ?w "[1, 12, 1, 99]"] by blast
  with a m1 m2 show ?thesis by simp
qed

subsection \<open>Olm bootstrap\<close>

text \<open>
  C1. In the example state the client of Olm \<open>olm1\<close> is associated with site 1 only,
  and resource 2 (\<open>secure.example.com\<close>) is served by site 2 only. The sync of
  \<open>olm1\<close> nevertheless pushes the zone of resource 2 together with the zone of
  resource 1: the bootstrap does not restrict the zones to the client's sites.
\<close>

theorem sendOlmSyncMessage_pushes_unassociated_zone:
  "[assoc_siteId a. a \<leftarrow> clientSitesAssociationsCache exampleDb,
                    assoc_clientId a = client_clientId client1] = [1] \<and>
   dnsAuthoritySiteIds exampleDb 2 = [2] \<and>
   outbox (sendOlmSyncMessage exampleConfig () \<lparr>olm_olmId = ''olm1''\<rparr> client1
             \<lparr>db = exampleDb, outbox = []\<rparr>) =
     [(''olm1'', \<lparr>msg_type = ''olm/sync'', msg_data = OlmSync () []\<rparr>),
      (''olm1'', \<lparr>msg_type = ''olm/dns/authority/config'',
                  msg_data = DnsAuthority
                    \<lparr>dm_action = ''update'',
                     dm_zones =
                       [Zone \<lparr>cfg_enabled = True, cfg_domain = ''svc.example.com'', cfg_ttl = 60,
                              cfg_routingPolicy = ''failover'',
                              cfg_targets = [\<lparr>dt_ip = ''203.0.113.10'', dt_priority = 100,
                                               dt_healthy = True, dt_siteId = 1,
                                               dt_siteName = ''Site One''\<rparr>]\<rparr>,
                        Zone \<lparr>cfg_enabled = True, cfg_domain = ''secure.example.com'',
                              cfg_ttl = 300, cfg_routingPolicy = ''failover'',
                              cfg_targets = [\<lparr>dt_ip = ''198.51.100.7'', dt_priority = 100,
                                               dt_healthy = True, dt_siteId = 2,
                                               dt_siteName = ''Site Two''\<rparr>]\<rparr>]\<rparr>\<rparr>)]"
  by (simp add: sync_defs dns_defs dnsAuthoritySiteIds_def example_defs)

subsection \<open>Health ingest\<close>

lemma processEntry_tables:
  "targets (ing_db (processEntry sid st e)) = targets (ing_db st) \<and>
   resources (ing_db (processEntry sid st e)) = resources (ing_db st) \<and>
   sites (ing_db (processEntry sid st e)) = sites (ing_db st)"
  by (simp add: processEntry_def setHcHealth_def split: option.splits)

lemma processEntries_tables:
  "targets (ing_db (processEntries sid es st)) = targets (ing_db st) \<and>
   resources (ing_db (processEntries sid es st)) = resources (ing_db st) \<and>
   sites (ing_db (processEntries sid es st)) = sites (ing_db st)"
  unfolding processEntries_def
  by (induction es arbitrary: st) (simp_all add: processEntry_tables)

lemma targetCheck_foreign:
  assumes "\<forall>t\<in>set (targets d). target_targetId t = n \<longrightarrow> target_siteId t \<noteq> sid"
  shows "targetCheck d n sid = None"
proof -
  have "[(target_targetId t, target_siteId t).
              t \<leftarrow> targets d,
              r \<leftarrow> resources d, target_resourceId t = resource_resourceId r,
              s \<leftarrow> sites d, target_siteId t = site_siteId s,
              target_targetId t = n \<and> site_siteId s = sid] = []"
    using assms by auto
  then show ?thesis unfolding targetCheck_def by (simp only: list.case)
qed

lemma processEntry_error_commute:
  "processEntry sid (st\<lparr>errorCount := Suc (errorCount st)\<rparr>) e =
   (processEntry sid st e)\<lparr>errorCount := Suc (errorCount (processEntry sid st e))\<rparr>"
  by (simp add: processEntry_def split: option.splits)

lemma processEntries_error_commute:
  "processEntries sid es (st\<lparr>errorCount := Suc (errorCount st)\<rparr>) =
   (processEntries sid es st)\<lparr>errorCount := Suc (errorCount (processEntries sid es st))\<rparr>"
  unfolding processEntries_def
proof (induction es arbitrary: st)
  case Nil
  show ?case by simp
next
  case (Cons e es)
  show ?case
    by (simp only: foldl_Cons processEntry_error_commute Cons.IH)
qed

lemma processEntries_append:
  "processEntries sid (xs @ ys) st = processEntries sid ys (processEntries sid xs st)"
  by (simp add: processEntries_def)

text \<open>
  The store the handler leaves behind is the store of its loop: the rebuild of the
  affected zones reads the store and sends messages only.
\<close>

lemma update_db: "db (updateDNSAuthorityForResource r (w::'c world)) = db w"
proof -
  obtain ms where "\<forall>w'::'c world. db w' = db w \<longrightarrow>
     updateDNSAuthorityForResource r w' = w'\<lparr>outbox := outbox w' @ ms\<rparr>"
    using update_appends by blast
  then have "updateDNSAuthorityForResource r w = w\<lparr>outbox := outbox w @ ms\<rparr>" by simp
  then show ?thesis by simp
qed

lemma onHealthCheckUpdate_db: "db (onHealthCheckUpdate targetIds (w::'c world)) = db w"
proof -
  have "db (foldl (\<lambda>w resourceId. updateDNSAuthorityForResource resourceId w) w rs) = db w"
    for rs and w :: "'c world"
    by (induction rs arbitrary: w) (simp_all add: update_db)
  then show ?thesis by (simp add: onHealthCheckUpdate_def)
qed

lemma handleHealthcheckStatusMessage_db:
  assumes "newt_siteId newt = Some siteId" and "siteId \<noteq> 0"
  shows "db (handleHealthcheckStatusMessage (Some newt) (Some entries) (w::'c world)) =
         ing_db (processEntries siteId entries
                   \<lparr>ing_db = db w, successCount = 0, errorCount = 0, updatedTargetIds = []\<rparr>)"
  using assms by (simp add: handleHealthcheckStatusMessage_def Let_def onHealthCheckUpdate_db)

text \<open>
  C3. An entry of a health report whose target does not exist, or exists only on a site
  other than the reporting Newt's, changes nothing but the error counter: the batch with
  the entry leaves the store, the success counter and the list of updated targets exactly
  as the batch without it does, counts one more error, and the entries after it are
  processed as before.
\<close>

theorem foreign_health_entry_rejected:
  assumes "\<forall>n. parseInt (fst e) = Some n \<longrightarrow>
             (\<forall>t\<in>set (targets (ing_db st)). target_targetId t = n \<longrightarrow>
                target_siteId t \<noteq> newtSiteId)"
  shows "processEntries newtSiteId (pre @ e # post) st =
         (processEntries newtSiteId (pre @ post) st)
           \<lparr>errorCount := errorCount (processEntries newtSiteId (pre @ post) st) + 1\<rparr>"
proof -
  let ?s1 = "processEntries newtSiteId pre st"
  have step: "processEntry newtSiteId ?s1 e = ?s1\<lparr>errorCount := errorCount ?s1 + 1\<rparr>"
  proof (cases "parseInt (fst e)")
    case None
    then show ?thesis by (simp add: processEntry_def)
  next
    case (Some n)
    with assms have "\<forall>t\<in>set (targets (ing_db ?s1)). target_targetId t = n \<longrightarrow>
                target_siteId t \<noteq> newtSiteId"
      by (simp add: processEntries_tables)
    then have "targetCheck (ing_db ?s1) n newtSiteId = None" by (rule targetCheck_foreign)
    with Some show ?thesis by (simp add: processEntry_def)
  qed
  have "processEntries newtSiteId (pre @ e # post) st =
        processEntries newtSiteId post (processEntry newtSiteId ?s1 e)"
    by (simp add: processEntries_def)
  also have "\<dots> = processEntries newtSiteId post (?s1\<lparr>errorCount := errorCount ?s1 + 1\<rparr>)"
    by (simp only: step)
  also have "\<dots> = (processEntries newtSiteId post ?s1)
                     \<lparr>errorCount := errorCount (processEntries newtSiteId post ?s1) + 1\<rparr>"
    using processEntries_error_commute[of newtSiteId post ?s1] by simp
  finally show ?thesis by (simp add: processEntries_append)
qed

text \<open>
  The Newt of site 1 reports target 12, which lives on site 2, and its own target 1:
  the first entry is counted as an error and only target 1's health is written.
\<close>

theorem foreign_health_entry_rejected_witness:
  "processEntries 1 [(''12'', unhealthyReport), (''1'', healthyReport)] freshIngest =
     \<lparr>ing_db = setHcHealth 1 ''healthy'' exampleDb, successCount = 1, errorCount = 1,
      updatedTargetIds = [1]\<rparr> \<and>
   targetHealthCheck (setHcHealth 1 ''healthy'' exampleDb) =
     [\<lparr>hc_targetId = 1, hc_hcEnabled = False, hc_hcHealth = Some ''healthy''\<rparr>,
      \<lparr>hc_targetId = 12, hc_hcEnabled = True, hc_hcHealth = Some ''healthy''\<rparr>]"
proof -
  have p: "parseInt ''12'' = Some 12" by (simp add: parse_defs)
  have h: "\<forall>n. parseInt (fst (''12'', unhealthyReport)) = Some n \<longrightarrow>
             (\<forall>t\<in>set (targets (ing_db freshIngest)). target_targetId t = n \<longrightarrow>
                target_siteId t \<noteq> 1)"
    using p by (simp add: freshIngest_def example_defs)
  have q: "parseInt ''1'' = Some 1" by (simp add: parse_defs)
  have r: "processEntries 1 [(''1'', healthyReport)] freshIngest =
     \<lparr>ing_db = setHcHealth 1 ''healthy'' exampleDb, successCount = 1, errorCount = 0,
      updatedTargetIds = [1]\<rparr>"
    using q by (simp add: processEntries_def processEntry_def targetCheck_def freshIngest_def
                  healthyReport_def example_defs)
  have t: "targetHealthCheck (setHcHealth 1 ''healthy'' exampleDb) =
     [\<lparr>hc_targetId = 1, hc_hcEnabled = False, hc_hcHealth = Some ''healthy''\<rparr>,
      \<lparr>hc_targetId = 12, hc_hcEnabled = True, hc_hcHealth = Some ''healthy''\<rparr>]"
    by (simp add: setHcHealth_def example_defs)
  from foreign_health_entry_rejected[OF h, of "[]" "[(''1'', healthyReport)]"] r t
  show ?thesis by simp
qed

lemma isRadixDigit10_iff:
  "isRadixDigit 10 c \<longleftrightarrow> 48 \<le> (of_char c :: nat) \<and> (of_char c :: nat) \<le> 57"
  by (auto simp: isRadixDigit_def digitValue_def Let_def)

lemma digit_not_space: "isRadixDigit 10 c \<Longrightarrow> \<not> isWhiteSpace c"
  by (auto simp: isRadixDigit10_iff isWhiteSpace_def)

lemma digit_not_sign: "isRadixDigit 10 c \<Longrightarrow> c \<noteq> CHR ''+'' \<and> c \<noteq> CHR ''-''"
  by (auto simp: isRadixDigit10_iff)

lemma takeWhile_prefix:
  "\<forall>c\<in>set ds. P c \<Longrightarrow> rest = [] \<or> \<not> P (hd rest) \<Longrightarrow> takeWhile P (ds @ rest) = ds"
  by (induction ds) (auto simp: takeWhile_eq_Nil_iff)

lemma parseInt_prefix:
  assumes ds: "ds \<noteq> []" "\<forall>c\<in>set ds. isRadixDigit 10 c"
      and rest: "rest = [] \<or> \<not> isRadixDigit 10 (hd rest)"
      and nohex: "take 2 (ds @ rest) \<noteq> ''0x''" "take 2 (ds @ rest) \<noteq> ''0X''"
  shows "parseInt (ds @ rest) = Some (int (digitsValue 10 ds))"
proof -
  obtain c cs where c: "ds = c # cs" using ds(1) by (cases ds) auto
  have d: "isRadixDigit 10 c" using ds(2) c by simp
  have s0: "dropWhile isWhiteSpace (ds @ rest) = ds @ rest"
    using digit_not_space[OF d] c by simp
  have hd: "hd (ds @ rest) = c" using c by simp
  have ne: "ds @ rest \<noteq> []" using c by simp
  have tw: "takeWhile (isRadixDigit 10) (ds @ rest) = ds"
    using ds(2) rest by (rule takeWhile_prefix)
  show ?thesis
    unfolding parseInt_def s0 Let_def
    using digit_not_sign[OF d] nohex tw ds(1) by (simp add: hd ne)
qed

lemma parseInt_None_iff:
  "parseInt key = None \<longleftrightarrow>
     (if take 2 (unsignedPart key) = ''0x'' \<or> take 2 (unsignedPart key) = ''0X''
      then drop 2 (unsignedPart key) = [] \<or> \<not> isRadixDigit 16 (hd (drop 2 (unsignedPart key)))
      else unsignedPart key = [] \<or> \<not> isRadixDigit 10 (hd (unsignedPart key)))"
  unfolding parseInt_def unsignedPart_def Let_def
  by (simp add: takeWhile_eq_Nil_iff)

text \<open>
  C9, as stated, fails on keys that start with \<open>0x\<close>: the key \<open>0x\<close> begins with the
  integer prefix \<open>0\<close> followed by the non-numeric \<open>x\<close>, yet \<open>parseInt\<close> answers
  \<open>NaN\<close> and the entry is counted as malformed; the key \<open>0x1f\<close> is read as 31, not
  as its decimal prefix 0.
\<close>

theorem parseInt_hex_prefix_counterexample:
  "takeWhile (isRadixDigit 10) ''0x'' = ''0'' \<and>
   parseInt ''0x'' = None \<and>
   processEntry 1 freshIngest (''0x'', healthyReport) = freshIngest\<lparr>errorCount := 1\<rparr> \<and>
   takeWhile (isRadixDigit 10) ''0x1f'' = ''0'' \<and>
   parseInt ''0x1f'' = Some 31"
  by (simp add: parse_defs processEntry_def freshIngest_def)

text \<open>
  C9, amended. A key that begins with decimal digits (of value below \<open>2^53\<close>, where a
  Number is exact) followed by a non-digit character, and that does not begin with
  \<open>0x\<close> or \<open>0X\<close>, is not rejected as malformed: \<open>parseInt\<close> returns the value of
  the digits, the entry goes to the tenancy check, and when that passes the health of the
  target with that id is written. A key is malformed exactly when, after leading white
  space and one optional sign, it does not start with a decimal digit, or it starts with
  \<open>0x\<close>/\<open>0X\<close> and no hexadecimal digit follows the prefix.
\<close>

theorem parseInt_accepts_integer_prefix:
  assumes ds: "ds \<noteq> []" "\<forall>c\<in>set ds. isRadixDigit 10 c"
      and rest: "rest \<noteq> []" "\<not> isRadixDigit 10 (hd rest)"
      and nohex: "take 2 (ds @ rest) \<noteq> ''0x''" "take 2 (ds @ rest) \<noteq> ''0X''"
      and exact: "digitsValue 10 ds < 2 ^ 53"
  shows "parseInt (ds @ rest) = Some (int (digitsValue 10 ds)) \<and>
         processEntry newtSiteId st (ds @ rest, report) =
           (case targetCheck (ing_db st) (int (digitsValue 10 ds)) newtSiteId of
              None \<Rightarrow> st\<lparr>errorCount := errorCount st + 1\<rparr>
            | Some row \<Rightarrow>
                st\<lparr>ing_db := setHcHealth (int (digitsValue 10 ds)) (hs_status report) (ing_db st),
                   successCount := successCount st + 1,
                   updatedTargetIds := updatedTargetIds st @ [int (digitsValue 10 ds)]\<rparr>) \<and>
         (\<forall>key. parseInt key = None \<longleftrightarrow>
            (if take 2 (unsignedPart key) = ''0x'' \<or> take 2 (unsignedPart key) = ''0X''
             then drop 2 (unsignedPart key) = [] \<or>
                  \<not> isRadixDigit 16 (hd (drop 2 (unsignedPart key)))
             else unsignedPart key = [] \<or> \<not> isRadixDigit 10 (hd (unsignedPart key))))"
proof -
  have p: "parseInt (ds @ rest) = Some (int (digitsValue 10 ds))"
    using ds rest(2) nohex by (intro parseInt_prefix) simp_all
  then have "processEntry newtSiteId st (ds @ rest, report) =
           (case targetCheck (ing_db st) (int (digitsValue 10 ds)) newtSiteId of
              None \<Rightarrow> st\<lparr>errorCount := errorCount st + 1\<rparr>
            | Some row \<Rightarrow>
                st\<lparr>ing_db := setHcHealth (int (digitsValue 10 ds)) (hs_status report) (ing_db st),
                   successCount := successCount st + 1,
                   updatedTargetIds := updatedTargetIds st @ [int (digitsValue 10 ds)]\<rparr>)"
    by (simp add: processEntry_def split: option.splits)
  with p parseInt_None_iff show ?thesis by blast
qed

text \<open>
  The Newt of site 2 reports its target 12 under the key \<open>12abc\<close>: the key is read as
  12 and the health of target 12 is written.
\<close>

theorem parseInt_accepts_integer_prefix_witness:
  "parseInt ''12abc'' = Some 12 \<and>
   processEntry 2 freshIngest (''12abc'', unhealthyReport) =
     \<lparr>ing_db = setHcHealth 12 ''unhealthy'' exampleDb, successCount = 1, errorCount = 0,
      updatedTargetIds = [12]\<rparr> \<and>
   targetHealthCheck (setHcHealth 12 ''unhealthy'' exampleDb) =
     [\<lparr>hc_targetId = 1, hc_hcEnabled = False, hc_hcHealth = Some ''unknown''\<rparr>,
      \<lparr>hc_targetId = 12, hc_hcEnabled = True, hc_hcHealth = Some ''unhealthy''\<rparr>]"
proof -
  have v: "digitsValue 10 ''12'' = 12" by (simp add: digitsValue_def digitValue_def)
  have d: "\<forall>c\<in>set ''12''. isRadixDigit 10 c" by (simp add: isRadixDigit_def digitValue_def)
  have n: "\<not> isRadixDigit 10 (hd ''abc'')" by (simp add: isRadixDigit_def digitValue_def)
  have tc: "targetCheck exampleDb 12 2 = Some (12, 2)"
    by (simp add: targetCheck_def example_defs)
  have t: "targetHealthCheck (setHcHealth 12 ''unhealthy'' exampleDb) =
     [\<lparr>hc_targetId = 1, hc_hcEnabled = False, hc_hcHealth = Some ''unknown''\<rparr>,
      \<lparr>hc_targetId = 12, hc_hcEnabled = True, hc_hcHealth = Some ''unhealthy''\<rparr>]"
    by (simp add: setHcHealth_def example_defs)
  from parseInt_accepts_integer_prefix[of "''12''" "''abc''" 2 freshIngest unhealthyReport]
       d n v tc t
  show ?thesis by (simp add: freshIngest_def unhealthyReport_def)
qed

subsection \<open>Auth proxy\<close>

lemma protected_iff: "protectedResources d siteId \<noteq> [] \<longleftrightarrow> hostsProtectedTarget d siteId"
proof -
  have "protectedResources d siteId \<noteq> [] \<longleftrightarrow>
        (\<exists>x\<in>set (siteTargets d siteId). st_dnsAuthorityEnabled x \<and>
                  (st_sso x \<or> st_blockAccess x \<or> st_emailWhitelistEnabled x))"
    by (simp add: protectedResources_def filter_empty_conv)
  also have "\<dots> \<longleftrightarrow> hostsProtectedTarget d siteId"
    unfolding siteTargets_def hostsProtectedTarget_def
    by (auto 4 4)
  finally show ?thesis .
qed

lemma build_None_iff:
  "buildAuthProxyConfig H conf pem d siteId = None \<longleftrightarrow>
     \<not> (siteOrgExists d siteId \<and> hostsProtectedTarget d siteId \<and> truthy_str (dashboard_url conf))"
proof (cases "find (\<lambda>s. site_siteId s = siteId) (sites d)")
  case None
  then show ?thesis by (simp add: buildAuthProxyConfig_def siteOrgExists_def)
next
  case (Some site)
  show ?thesis
  proof (cases "find (\<lambda>g. org_orgId g = site_orgId site) (orgs d)")
    case None
    then have "\<not> (\<exists>g\<in>set (orgs d). org_orgId g = site_orgId site)"
      by (auto simp: find_None_iff)
    with None Some show ?thesis by (simp add: buildAuthProxyConfig_def siteOrgExists_def)
  next
    case S2: (Some org)
    then have "\<exists>g\<in>set (orgs d). org_orgId g = site_orgId site"
      by (auto simp: find_Some_iff)
    with S2 Some protected_iff[of d siteId] show ?thesis
      by (auto simp: buildAuthProxyConfig_def siteOrgExists_def Let_def)
  qed
qed

text \<open>
  C5, as stated, fails when no dashboard URL is configured: site 2 of the example hosts an
  enabled target of the SSO resource with DNS authority, it has a Newt and its org exists,
  yet the builder returns null and nothing is sent.
\<close>

theorem authProxy_not_emitted_counterexample:
  "hostsProtectedTarget exampleDb 2 \<and>
   siteNewtId exampleDb 2 = Some ''newt2'' \<and>
   buildAuthProxyConfig exampleHostname configWithoutUrl ''PEM'' exampleDb 2 = None \<and>
   outbox (updateAuthProxyForSite exampleHostname configWithoutUrl ''PEM'' 2
             (\<lparr>db = exampleDb, outbox = []\<rparr> :: unit world)) = []"
  by (simp add: hostsProtectedTarget_def authProxy_defs example_defs)

text \<open>
  C5, amended. \<open>updateAuthProxyForSite\<close> emits a message for a site iff the site has a
  Newt, the site and its org exist, a dashboard URL is configured, and the site hosts at
  least one enabled target of a resource with DNS authority enabled and at least one of
  SSO, blocked access or the e-mail allowlist; the message emitted is the builder's
  config, sent once to the site's Newt as \<open>newt/auth/proxy/config\<close>. When the site hosts
  no such target, \<open>buildAuthProxyConfig\<close> returns null and nothing is sent.
\<close>

theorem authProxy_emitted_iff:
  "(outbox (updateAuthProxyForSite H conf pem siteId w) \<noteq> outbox w \<longleftrightarrow>
      truthy_str (siteNewtId (db w) siteId) \<and> siteOrgExists (db w) siteId \<and>
      truthy_str (dashboard_url conf) \<and> hostsProtectedTarget (db w) siteId) \<and>
   (outbox (updateAuthProxyForSite H conf pem siteId w) \<noteq> outbox w \<longrightarrow>
      (\<exists>m. buildAuthProxyConfig H conf pem (db w) siteId = Some m \<and>
           updateAuthProxyForSite H conf pem siteId w =
             w\<lparr>outbox := outbox w @
                  [(the (siteNewtId (db w) siteId),
                    \<lparr>msg_type = ''newt/auth/proxy/config'', msg_data = AuthProxy m\<rparr>)]\<rparr>)) \<and>
   (\<not> hostsProtectedTarget (db w) siteId \<longrightarrow>
      buildAuthProxyConfig H conf pem (db w) siteId = None \<and>
      updateAuthProxyForSite H conf pem siteId w = w)"
proof (cases "buildAuthProxyConfig H conf pem (db w) siteId")
  case None
  then show ?thesis
    using build_None_iff[of H conf pem "db w" siteId]
    by (auto simp: updateAuthProxyForSite_def)
next
  case (Some m)
  then show ?thesis
    using build_None_iff[of H conf pem "db w" siteId]
    by (auto simp: updateAuthProxyForSite_def sendAuthProxyConfigToNewt_def sendToClient_def)
qed

text \<open>
  Scenario S5: the SSO resource on site 2 behind the dashboard
  \<open>https://app.example.com\<close>.
\<close>

theorem authProxy_emitted_iff_witness:
  "outbox (updateAuthProxyForSite exampleHostname exampleConfig ''PEM'' 2
             (\<lparr>db = exampleDb, outbox = []\<rparr> :: unit world)) =
     [(''newt2'',
       \<lparr>msg_type = ''newt/auth/proxy/config'',
        msg_data = AuthProxy
          \<lparr>apm_action = ''update'',
           apm_auth = \<lparr>ac_enabled = True, ac_pangolinUrl = ''https://app.example.com'',
                       ac_jwtPublicKey = ''PEM'', ac_cookieName = ''p_session'',
                       ac_cookieDomain = ''.example.com'',
                       ac_sessionValidationUrl =
                         ''https://app.example.com/api/v1/auth/session/validate''\<rparr>,
           apm_resources =
             [\<lparr>rac_resourceId = 2, rac_domain = ''secure.example.com'', rac_sso = True,
               rac_blockAccess = False, rac_emailWhitelistEnabled = False,
               rac_allowedEmails = [], rac_targetUrl = ''http://10.0.0.5:8080'',
               rac_ssl = False\<rparr>]\<rparr>\<rparr>)]"
proof -
  have port: "show_int 8080 = ''8080''"
    by (simp add: show_int_def show_nat.simps digit_char_def)
  have b: "buildAuthProxyConfig exampleHostname exampleConfig ''PEM'' exampleDb 2 =
     Some \<lparr>apm_action = ''update'',
           apm_auth = \<lparr>ac_enabled = True, ac_pangolinUrl = ''https://app.example.com'',
                       ac_jwtPublicKey = ''PEM'', ac_cookieName = ''p_session'',
                       ac_cookieDomain = ''.example.com'',
                       ac_sessionValidationUrl =
                         ''https://app.example.com/api/v1/auth/session/validate''\<rparr>,
           apm_resources =
             [\<lparr>rac_resourceId = 2, rac_domain = ''secure.example.com'', rac_sso = True,
               rac_blockAccess = False, rac_emailWhitelistEnabled = False,
               rac_allowedEmails = [], rac_targetUrl = ''http://10.0.0.5:8080'',
               rac_ssl = False\<rparr>]\<rparr>"
    by (simp add: authProxy_defs example_defs port)
  have n: "siteNewtId exampleDb 2 = Some ''newt2''"
    by (simp add: siteNewtId_def example_defs)
  have c1: "truthy_str (siteNewtId exampleDb 2)"
    by (simp only: n) (simp add: truthy_str_def)
  have c2: "siteOrgExists exampleDb 2"
    by (simp add: siteOrgExists_def example_defs)
  have c3: "truthy_str (dashboard_url exampleConfig)"
    by (simp add: truthy_str_def exampleConfig_def)
  have c4: "hostsProtectedTarget exampleDb 2"
    by (simp add: hostsProtectedTarget_def example_defs)
  note c = c1 c2 c3 c4
  let ?w = "\<lparr>db = exampleDb, outbox = []\<rparr> :: unit world"
  note T = authProxy_emitted_iff[of exampleHostname exampleConfig "''PEM''" 2 ?w]
  from T c have "outbox (updateAuthProxyForSite exampleHostname exampleConfig ''PEM'' 2 ?w)
                   \<noteq> outbox ?w"
    by simp
  with T obtain m where
    m: "buildAuthProxyConfig exampleHostname exampleConfig ''PEM'' (db ?w) 2 = Some m"
       "updateAuthProxyForSite exampleHostname exampleConfig ''PEM'' 2 ?w =
          ?w\<lparr>outbox := outbox ?w @
               [(the (siteNewtId (db ?w) 2),
                 \<lparr>msg_type = ''newt/auth/proxy/config'', msg_data = AuthProxy m\<rparr>)]\<rparr>"
    by blast
  from m(1) b have "m = the (buildAuthProxyConfig exampleHostname exampleConfig ''PEM'' exampleDb 2)"
    by simp
  with m(2) b n show ?thesis by simp
qed

lemma sliceLast2_two:
  "length xs \<ge> 2 \<Longrightarrow> sliceLast2 xs = [xs ! (length xs - 2), xs ! (length xs - 1)]"
proof -
  assume a: "length xs \<ge> 2"
  have l: "length (sliceLast2 xs) = 2" using a by (simp add: sliceLast2_def)
  then obtain x y where xy: "sliceLast2 xs = [x, y]"
    by (cases "sliceLast2 xs"; cases "tl (sliceLast2 xs)") auto
  have "x = sliceLast2 xs ! 0" "y = sliceLast2 xs ! 1" using xy by simp_all
  moreover have "Suc (length xs - 2) = length xs - 1" using a by arith
  ultimately have "x = xs ! (length xs - 2)" "y = xs ! (length xs - 1)"
    using a by (simp_all add: sliceLast2_def)
  with xy show ?thesis by simp
qed

lemma splitDot_nonempty: "splitDot h \<noteq> []"
  by (induction h) (auto split: list.splits)

lemma joinDot_Cons: "ps \<noteq> [] \<Longrightarrow> joinDot (p # ps) = p @ ''.'' @ joinDot ps"
  by (cases ps) auto

lemma joinDot_splitDot: "joinDot (splitDot h) = h"
proof (induction h)
  case Nil
  show ?case by simp
next
  case (Cons c cs)
  show ?case
  proof (cases "c = CHR ''.''")
    case True
    then show ?thesis using Cons splitDot_nonempty[of cs] by (simp add: joinDot_Cons)
  next
    case False
    obtain p ps where p: "splitDot cs = p # ps" using splitDot_nonempty[of cs] by (cases "splitDot cs") auto
    show ?thesis
    proof (cases ps)
      case Nil
      with p False Cons show ?thesis by simp
    next
      case (Cons q qs)
      with p False Cons.IH show ?thesis by simp
    qed
  qed
qed

lemma splitDot_no_dot: "l \<in> set (splitDot h) \<Longrightarrow> CHR ''.'' \<notin> set l"
proof (induction h arbitrary: l)
  case Nil
  then show ?case by simp
next
  case (Cons c cs)
  obtain p ps where p: "splitDot cs = p # ps" using splitDot_nonempty[of cs] by (cases "splitDot cs") auto
  show ?case
  proof (cases "c = CHR ''.''")
    case True
    with Cons show ?thesis by auto
  next
    case False
    with Cons.prems p have "l = c # p \<or> l \<in> set ps" by auto
    then show ?thesis
    proof
      assume "l = c # p"
      moreover have "CHR ''.'' \<notin> set p" using Cons.IH[of p] p by simp
      ultimately show ?thesis using False by auto
    next
      assume "l \<in> set ps"
      then show ?thesis using Cons.IH[of l] p by simp
    qed
  qed
qed

text \<open>
  C6. In every config the builder emits, when the platform parses the dashboard URL to the
  host \<open>host\<close>: if the host has two or more dot-separated labels, \<open>cookieDomain\<close> is a
  dot followed by its last two labels joined by a dot; if it has exactly one label,
  \<open>cookieDomain\<close> is the host itself. The labels are those of \<open>split(".")\<close>: there
  is at least one, none contains a dot, and joined by dots they give the host back.
\<close>

theorem cookieDomain_base_domain:
  assumes b: "buildAuthProxyConfig hostnameOf conf pem d siteId = Some m"
      and h: "hostnameOf (the (dashboard_url conf)) = Some host"
  shows "(length (splitDot host) \<ge> 2 \<longrightarrow>
            ac_cookieDomain (apm_auth m) =
              ''.'' @ splitDot host ! (length (splitDot host) - 2) @ ''.'' @
                      splitDot host ! (length (splitDot host) - 1)) \<and>
         (length (splitDot host) = 1 \<longrightarrow> ac_cookieDomain (apm_auth m) = host) \<and>
         length (splitDot host) \<ge> 1 \<and>
         joinDot (splitDot host) = host \<and>
         (\<forall>l\<in>set (splitDot host). CHR ''.'' \<notin> set l)"
proof -
  have cd: "ac_cookieDomain (apm_auth m) = extractBaseDomain hostnameOf (the (dashboard_url conf))"
    using b by (auto simp: buildAuthProxyConfig_def Let_def split: option.splits if_splits)
  have ne: "length (splitDot host) \<ge> 1"
    using splitDot_nonempty[of host] by (cases "splitDot host") auto
  show ?thesis
    using cd h ne sliceLast2_two[of "splitDot host"] joinDot_splitDot[of host]
          splitDot_no_dot[of _ host]
    by (auto simp: extractBaseDomain_def Let_def)
qed

text \<open>The dashboard host \<open>app.example.com\<close> gives the cookie domain \<open>.example.com\<close>.\<close>

theorem cookieDomain_base_domain_witness:
  "ac_cookieDomain (apm_auth (the
      (buildAuthProxyConfig exampleHostname exampleConfig ''PEM'' exampleDb 2))) =
     ''.example.com'' \<and>
   splitDot ''app.example.com'' = [''app'', ''example'', ''com'']"
proof -
  obtain m where m: "buildAuthProxyConfig exampleHostname exampleConfig ''PEM'' exampleDb 2 = Some m"
    by (simp add: buildAuthProxyConfig_def protectedResources_def siteTargets_def
          truthy_str_def exampleConfig_def example_defs Let_def)
  have h: "exampleHostname (the (dashboard_url exampleConfig)) = Some ''app.example.com''"
    by (simp add: exampleHostname_def exampleConfig_def)
  have s: "splitDot ''app.example.com'' = [''app'', ''example'', ''com'']" by simp
  from cookieDomain_base_domain[OF m h] s
  have "ac_cookieDomain (apm_auth m) = ''.example.com''" by simp
  with m s show ?thesis by simp
qed

text \<open>
  C10, as stated, fails when no dashboard URL is configured: in the example state without
  the protected resource's full domain, site 2 retains one protected resource, which lacks
  a full domain, and has a Newt; yet the builder returns null and nothing is sent.
\<close>

theorem authProxy_empty_resources_counterexample:
  "map st_fullDomain (protectedResources exampleDbNoDomain 2) = [None] \<and>
   siteNewtId exampleDbNoDomain 2 = Some ''newt2'' \<and>
   buildAuthProxyConfig exampleHostname configWithoutUrl ''PEM'' exampleDbNoDomain 2 = None \<and>
   outbox (updateAuthProxyForSite exampleHostname configWithoutUrl ''PEM'' 2
             (\<lparr>db = exampleDbNoDomain, outbox = []\<rparr> :: unit world)) = []"
  by (simp add: authProxy_defs example_defs)

text \<open>
  C10, amended. When a dashboard URL is configured and the retained protected resources
  of a site (the site and its org rows exist and at least one resource is retained) all
  lack a full domain, \<open>buildAuthProxyConfig\<close> returns a non-null update message whose
  resources are empty, and \<open>updateAuthProxyForSite\<close> sends that message to the site's
  Newt.
\<close>

theorem authProxy_empty_resources_still_sent:
  assumes site: "find (\<lambda>s. site_siteId s = siteId) (sites (db w)) = Some site"
      and org: "find (\<lambda>g. org_orgId g = site_orgId site) (orgs (db w)) = Some org"
      and url: "truthy_str (dashboard_url conf)"
      and ne: "protectedResources (db w) siteId \<noteq> []"
      and nodom: "\<forall>t\<in>set (protectedResources (db w) siteId). \<not> truthy_str (st_fullDomain t)"
      and newt: "siteNewtId (db w) siteId = Some newtId" "newtId \<noteq> []"
  shows "\<exists>m. buildAuthProxyConfig hostnameOf conf pem (db w) siteId = Some m \<and>
             apm_action m = ''update'' \<and> apm_resources m = [] \<and>
             updateAuthProxyForSite hostnameOf conf pem siteId w =
               w\<lparr>outbox := outbox w @
                    [(newtId, \<lparr>msg_type = ''newt/auth/proxy/config'',
                               msg_data = AuthProxy m\<rparr>)]\<rparr>"
proof -
  have "concat (map (resourceConfigOf (db w)) (protectedResources (db w) siteId)) = []"
    using nodom by (simp add: resourceConfigOf_def)
  then show ?thesis
    using site org url ne newt
    by (simp add: buildAuthProxyConfig_def updateAuthProxyForSite_def Let_def
          sendAuthProxyConfigToNewt_def sendToClient_def truthy_str_def)
qed

text \<open>
  With the dashboard URL configured, the same site receives a config with no resources.
\<close>

theorem authProxy_empty_resources_still_sent_witness:
  "outbox (updateAuthProxyForSite exampleHostname exampleConfig ''PEM'' 2
             (\<lparr>db = exampleDbNoDomain, outbox = []\<rparr> :: unit world)) =
     [(''newt2'',
       \<lparr>msg_type = ''newt/auth/proxy/config'',
        msg_data = AuthProxy
          \<lparr>apm_action = ''update'',
           apm_auth = \<lparr>ac_enabled = True, ac_pangolinUrl = ''https://app.example.com'',
                       ac_jwtPublicKey = ''PEM'', ac_cookieName = ''p_session'',
                       ac_cookieDomain = ''.example.com'',
                       ac_sessionValidationUrl =
                         ''https://app.example.com/api/v1/auth/session/validate''\<rparr>,
           apm_resources = []\<rparr>\<rparr>)]"
proof -
  let ?w = "\<lparr>db = exampleDbNoDomain, outbox = []\<rparr> :: unit world"
  have site: "find (\<lambda>s. site_siteId s = 2) (sites (db ?w)) = Some site2"
    by (simp add: example_defs)
  have org: "find (\<lambda>g. org_orgId g = site_orgId site2) (orgs (db ?w)) = Some \<lparr>org_orgId = ''org1''\<rparr>"
    by (simp add: example_defs)
  have url: "truthy_str (dashboard_url exampleConfig)"
    by (simp add: truthy_str_def exampleConfig_def)
  have ne: "protectedResources (db ?w) 2 \<noteq> []"
    by (simp add: protectedResources_def siteTargets_def example_defs)
  have nodom: "\<forall>t\<in>set (protectedResources (db ?w) 2). \<not> truthy_str (st_fullDomain t)"
    by (simp add: protectedResources_def siteTargets_def truthy_str_def example_defs)
  have newt: "siteNewtId (db ?w) 2 = Some ''newt2''" "''newt2'' \<noteq> []"
    by (simp_all add: siteNewtId_def example_defs)
  have b: "apm_auth (the (buildAuthProxyConfig exampleHostname exampleConfig ''PEM''
                           exampleDbNoDomain 2)) =
           \<lparr>ac_enabled = True, ac_pangolinUrl = ''https://app.example.com'',
            ac_jwtPublicKey = ''PEM'', ac_cookieName = ''p_session'',
            ac_cookieDomain = ''.example.com'',
            ac_sessionValidationUrl =
              ''https://app.example.com/api/v1/auth/session/validate''\<rparr>"
    by (simp add: authProxy_defs example_defs)
  from authProxy_empty_resources_still_sent[OF site org url ne nodom newt,
         of exampleHostname "''PEM''"]
  obtain m where m:
    "buildAuthProxyConfig exampleHostname exampleConfig ''PEM'' (db ?w) 2 = Some m"
    "apm_action m = ''update''" "apm_resources m = []"
    "updateAuthProxyForSite exampleHostname exampleConfig ''PEM'' 2 ?w =
       ?w\<lparr>outbox := outbox ?w @
            [(''newt2'', \<lparr>msg_type = ''newt/auth/proxy/config'', msg_data = AuthProxy m\<rparr>)]\<rparr>"
    by blast
  have "m = \<lparr>apm_action = ''update'', apm_auth = apm_auth m, apm_resources = []\<rparr>"
    using m(2,3) by (cases m) simp
  moreover have "apm_auth m = \<lparr>ac_enabled = True, ac_pangolinUrl = ''https://app.example.com'',
            ac_jwtPublicKey = ''PEM'', ac_cookieName = ''p_session'',
            ac_cookieDomain = ''.example.com'',
            ac_sessionValidationUrl =
              ''https://app.example.com/api/v1/auth/session/validate''\<rparr>"
    using b m(1) by simp
  ultimately show ?thesis using m(4) by simp
qed

subsection \<open>Session validation\<close>

lemma find_map_comp: "find P (map f xs) = map_option f (find (P \<circ> f) xs)"
  by (induction xs) auto

lemma firstIndexOf_Cons:
  "take (length pat) (c # cs) \<noteq> pat \<Longrightarrow>
   firstIndexOf pat (c # cs) = map_option Suc (firstIndexOf pat cs)"
proof -
  assume a: "take (length pat) (c # cs) \<noteq> pat"
  have "[0..<Suc (length (c # cs))] = 0 # map Suc [0..<Suc (length cs)]"
    by (simp add: upt_conv_Cons map_Suc_upt del: upt_Suc)
  then show ?thesis
    using a by (simp add: firstIndexOf_def find_map_comp comp_def del: upt_Suc)
qed

lemma removeFirst_withoutFirst: "pat \<noteq> [] \<Longrightarrow> removeFirst pat s = withoutFirst pat s"
proof (induction s)
  case Nil
  then show ?case by (auto simp: withoutFirst_def firstIndexOf_def)
next
  case (Cons c cs)
  show ?case
  proof (cases "take (length pat) (c # cs) = pat")
    case True
    then have "firstIndexOf pat (c # cs) = Some 0"
      by (simp add: firstIndexOf_def upt_conv_Cons del: upt_Suc)
    with True show ?thesis by (simp add: withoutFirst_def)
  next
    case False
    then show ?thesis
      using Cons by (simp add: withoutFirst_def firstIndexOf_Cons split: option.splits)
  qed
qed

lemma sessionTokenOf_spec:
  "(if truthy_str (sessionTokenOf req) then sessionTokenOf req else None) = specToken req"
  by (auto simp: sessionTokenOf_def specToken_def truthy_str_def removeFirst_withoutFirst
           split: option.splits)


lemma occurrence_split:
  assumes "take (length pat) (drop i h) = pat"
  shows "h = take i h @ pat @ drop (i + length pat) h"
proof -
  have "drop i h = take (length pat) (drop i h) @ drop (length pat) (drop i h)"
    by (simp only: append_take_drop_id)
  then have "drop i h = pat @ drop (length pat) (drop i h)"
    using assms by (simp only:)
  then have "drop i h = pat @ drop (i + length pat) h"
    by (simp add: add.commute)
  then have "take i h @ drop i h = take i h @ pat @ drop (i + length pat) h" by simp
  then show ?thesis by simp
qed

lemma withoutFirst_first:
  assumes h: "h = pre @ pat @ post"
      and first: "\<forall>a b. h = a @ pat @ b \<longrightarrow> length pre \<le> length a"
  shows "withoutFirst pat h = pre @ post"
proof -
  let ?P = "\<lambda>i. take (length pat) (drop i h) = pat"
  have len: "length pre \<le> length h" using h by simp
  have split: "[0..<Suc (length h)] =
               [0..<length pre] @ length pre # [Suc (length pre)..<Suc (length h)]"
  proof -
    have "length pre + (Suc (length h) - length pre) = Suc (length h)" using len by arith
    then have "[0..<Suc (length h)] = [0..<length pre] @ [length pre..<Suc (length h)]"
      using upt_add_eq_append[of 0 "length pre" "Suc (length h) - length pre"] by simp
    moreover have "[length pre..<Suc (length h)] = length pre # [Suc (length pre)..<Suc (length h)]"
      using len by (intro upt_conv_Cons) simp
    ultimately show ?thesis by (simp only:)
  qed
  have here: "?P (length pre)" using h by simp
  have before: "\<forall>j\<in>set [0..<length pre]. \<not> ?P j"
  proof
    fix j assume j: "j \<in> set [0..<length pre]"
    show "\<not> ?P j"
    proof
      assume "?P j"
      then have "h = take j h @ pat @ drop (j + length pat) h" by (rule occurrence_split)
      with first have "length pre \<le> length (take j h)" by blast
      with j len show False by simp
    qed
  qed
  have "firstIndexOf pat h = Some (length pre)"
    unfolding firstIndexOf_def using split here before by (rule find_first)
  then show ?thesis using h by (simp add: withoutFirst_def)
qed

lemma withoutFirst_absent:
  assumes "\<forall>a b. h \<noteq> a @ pat @ b"
  shows "withoutFirst pat h = h"
proof -
  have "\<forall>i\<in>set [0..<Suc (length h)]. \<not> take (length pat) (drop i h) = pat"
    using assms occurrence_split by blast
  then have "firstIndexOf pat h = None"
    unfolding firstIndexOf_def find_None_iff by blast
  then show ?thesis by (simp add: withoutFirst_def)
qed


lemma specToken_cases:
  "(\<forall>c. cookie_p_session req = Some c \<and> c \<noteq> [] \<longrightarrow> specToken req = Some c) \<and>
   ((cookie_p_session req = None \<or> cookie_p_session req = Some []) \<and>
    header_authorization req = None \<longrightarrow> specToken req = None) \<and>
   (\<forall>pre post.
      (cookie_p_session req = None \<or> cookie_p_session req = Some []) \<and>
      header_authorization req = Some (pre @ ''Bearer '' @ post) \<and>
      (\<forall>a b. pre @ ''Bearer '' @ post = a @ ''Bearer '' @ b \<longrightarrow> length pre \<le> length a) \<longrightarrow>
      specToken req = (if pre @ post = [] then None else Some (pre @ post))) \<and>
   (\<forall>h. (cookie_p_session req = None \<or> cookie_p_session req = Some []) \<and>
      header_authorization req = Some h \<and> (\<forall>a b. h \<noteq> a @ ''Bearer '' @ b) \<longrightarrow>
      specToken req = (if h = [] then None else Some h))"
proof (intro conjI allI impI)
  fix c assume "cookie_p_session req = Some c \<and> c \<noteq> []"
  then show "specToken req = Some c" by (simp add: specToken_def)
next
  assume "(cookie_p_session req = None \<or> cookie_p_session req = Some []) \<and>
    header_authorization req = None"
  then show "specToken req = None" by (auto simp: specToken_def)
next
  fix pre post
  assume a: "(cookie_p_session req = None \<or> cookie_p_session req = Some []) \<and>
      header_authorization req = Some (pre @ ''Bearer '' @ post) \<and>
      (\<forall>a b. pre @ ''Bearer '' @ post = a @ ''Bearer '' @ b \<longrightarrow> length pre \<le> length a)"
  then have "withoutFirst ''Bearer '' (pre @ ''Bearer '' @ post) = pre @ post"
    by (intro withoutFirst_first) auto
  with a show "specToken req = (if pre @ post = [] then None else Some (pre @ post))"
    by (auto simp: specToken_def)
next
  fix h
  assume a: "(cookie_p_session req = None \<or> cookie_p_session req = Some []) \<and>
      header_authorization req = Some h \<and> (\<forall>a b. h \<noteq> a @ ''Bearer '' @ b)"
  then have "withoutFirst ''Bearer '' h = h" by (intro withoutFirst_absent) auto
  with a show "specToken req = (if h = [] then None else Some h)"
    by (auto simp: specToken_def)
qed

text \<open>
  C4, as stated, fails on an \<open>Authorization\<close> header that is not a Bearer header: with no
  cookie and the header \<open>abc\<close>, the header is taken whole as the token, the session
  \<open>abc\<close> is found and the response is \<open>{valid: true}\<close>. And when all three lookups
  succeed but the expiry cannot be rendered, the response is the 500.
\<close>

theorem validateSession_header_counterexample:
  "validateSession noFaults exampleISO 1000 exampleDb
     \<lparr>cookie_p_session = None, header_authorization = Some ''abc''\<rparr> =
     \<lparr>resp_status = 200,
      resp_data = \<lparr>valid = True, sv_userId = Some ''u1'', sv_email = Some ''a@x'',
                   sv_expiresAt = Some ''1970-01-01T00:00:02.000Z''\<rparr>,
      resp_success = True, resp_error = False, resp_message = ''Session valid''\<rparr> \<and>
   validateSession noFaults throwingISO 1000 exampleDb
     \<lparr>cookie_p_session = Some ''abc'', header_authorization = None\<rparr> =
     \<lparr>resp_status = 500,
      resp_data = \<lparr>valid = False, sv_userId = None, sv_email = None, sv_expiresAt = None\<rparr>,
      resp_success = False, resp_error = True,
      resp_message = ''Session validation failed''\<rparr>"
  by (simp add: session_defs example_defs)

text \<open>
  C4, amended. The session token is the \<open>p_session\<close> cookie when present and not empty;
  otherwise it is the \<open>Authorization\<close> header with its first \<open>Bearer \<close> removed, a
  header without \<open>Bearer \<close> being taken whole; an empty remainder is no token. With no
  token the response is 200 \<open>{valid: false}\<close>. With a token: if no session row has it
  with \<open>expiresAt > now\<close>, or the user of the first such row is missing, the response
  is 200 \<open>{valid: false}\<close>; if session and user are found and the expiry renders, it is
  200 \<open>{valid: true, userId, email, expiresAt}\<close>. The status is 200 or 500, and it is
  500, with \<open>{valid: false}\<close>, only when a store query or the rendering of the expiry
  has thrown.
\<close>

theorem validateSession_responses:
  "(\<forall>c. cookie_p_session req = Some c \<and> c \<noteq> [] \<longrightarrow> specToken req = Some c) \<and>
   ((cookie_p_session req = None \<or> cookie_p_session req = Some []) \<and>
    header_authorization req = None \<longrightarrow> specToken req = None) \<and>
   (\<forall>pre post.
      (cookie_p_session req = None \<or> cookie_p_session req = Some []) \<and>
      header_authorization req = Some (pre @ ''Bearer '' @ post) \<and>
      (\<forall>a b. pre @ ''Bearer '' @ post = a @ ''Bearer '' @ b \<longrightarrow> length pre \<le> length a) \<longrightarrow>
      specToken req = (if pre @ post = [] then None else Some (pre @ post))) \<and>
   (\<forall>h. (cookie_p_session req = None \<or> cookie_p_session req = Some []) \<and>
      header_authorization req = Some h \<and> (\<forall>a b. h \<noteq> a @ ''Bearer '' @ b) \<longrightarrow>
      specToken req = (if h = [] then None else Some h)) \<and>
   (specToken req = None \<longrightarrow>
      validateSession faults toISOString now d req =
        \<lparr>resp_status = 200,
         resp_data = \<lparr>valid = False, sv_userId = None, sv_email = None, sv_expiresAt = None\<rparr>,
         resp_success = True, resp_error = False,
         resp_message = ''No session token provided''\<rparr>) \<and>
   (\<forall>token. specToken req = Some token \<and> faults SessionQuery \<longrightarrow>
      validateSession faults toISOString now d req = internalError) \<and>
   (\<forall>token. specToken req = Some token \<and> \<not> faults SessionQuery \<and>
      (\<forall>s\<in>set (sessions d).
         \<not> (session_sessionToken s = token \<and> now < session_expiresAt s)) \<longrightarrow>
      validateSession faults toISOString now d req =
        \<lparr>resp_status = 200,
         resp_data = \<lparr>valid = False, sv_userId = None, sv_email = None, sv_expiresAt = None\<rparr>,
         resp_success = True, resp_error = False,
         resp_message = ''Invalid or expired session''\<rparr>) \<and>
   (\<forall>token pre s post.
      specToken req = Some token \<and> \<not> faults SessionQuery \<and>
      sessions d = pre @ s # post \<and>
      session_sessionToken s = token \<and> now < session_expiresAt s \<and>
      (\<forall>x\<in>set pre. \<not> (session_sessionToken x = token \<and> now < session_expiresAt x)) \<longrightarrow>
      (faults UserQuery \<longrightarrow> validateSession faults toISOString now d req = internalError) \<and>
      (\<not> faults UserQuery \<and> (\<forall>u\<in>set (users d). user_userId u \<noteq> session_userId s) \<longrightarrow>
         validateSession faults toISOString now d req =
           \<lparr>resp_status = 200,
            resp_data = \<lparr>valid = False, sv_userId = None, sv_email = None,
                         sv_expiresAt = None\<rparr>,
            resp_success = True, resp_error = False, resp_message = ''User not found''\<rparr>) \<and>
      (\<forall>upre u upost.
         \<not> faults UserQuery \<and> users d = upre @ u # upost \<and>
         user_userId u = session_userId s \<and>
         (\<forall>x\<in>set upre. user_userId x \<noteq> session_userId s) \<longrightarrow>
         (toISOString (session_expiresAt s) = None \<longrightarrow>
            validateSession faults toISOString now d req = internalError) \<and>
         (\<forall>iso. toISOString (session_expiresAt s) = Some iso \<longrightarrow>
            validateSession faults toISOString now d req =
              \<lparr>resp_status = 200,
               resp_data = \<lparr>valid = True, sv_userId = Some (user_userId u),
                            sv_email = Some (user_email u), sv_expiresAt = Some iso\<rparr>,
               resp_success = True, resp_error = False,
               resp_message = ''Session valid''\<rparr>))) \<and>
   (resp_status (validateSession faults toISOString now d req) = 500 \<longrightarrow>
      validateSession faults toISOString now d req = internalError \<and>
      (faults SessionQuery \<or> faults UserQuery \<or>
       (\<exists>s\<in>set (sessions d). toISOString (session_expiresAt s) = None))) \<and>
   (resp_status (validateSession faults toISOString now d req) = 200 \<or>
    resp_status (validateSession faults toISOString now d req) = 500) \<and>
   internalError =
     \<lparr>resp_status = 500,
      resp_data = \<lparr>valid = False, sv_userId = None, sv_email = None, sv_expiresAt = None\<rparr>,
      resp_success = False, resp_error = True,
      resp_message = ''Session validation failed''\<rparr>"
proof -
  let ?r = "validateSession faults toISOString now d req"
  note tok = sessionTokenOf_spec[of req, symmetric]
  have none: "specToken req = None \<Longrightarrow> \<not> truthy_str (sessionTokenOf req)"
    using tok by (auto split: if_splits simp: truthy_str_def)
  have some: "\<And>token. specToken req = Some token \<Longrightarrow>
                sessionTokenOf req = Some token \<and> token \<noteq> []"
    using tok by (auto split: if_splits simp: truthy_str_def)
  have c5: "specToken req = None \<longrightarrow> ?r =
        \<lparr>resp_status = 200,
         resp_data = \<lparr>valid = False, sv_userId = None, sv_email = None, sv_expiresAt = None\<rparr>,
         resp_success = True, resp_error = False,
         resp_message = ''No session token provided''\<rparr>"
    using none by (simp add: validateSession_def okInvalid_def invalidBody_def truthy_str_def)
  have c6: "\<forall>token. specToken req = Some token \<and> faults SessionQuery \<longrightarrow> ?r = internalError"
  proof (intro allI impI)
    fix token assume a: "specToken req = Some token \<and> faults SessionQuery"
    with some[of token] show "?r = internalError" by (simp add: validateSession_def truthy_str_def)
  qed
  have c7: "\<forall>token. specToken req = Some token \<and> \<not> faults SessionQuery \<and>
      (\<forall>s\<in>set (sessions d).
         \<not> (session_sessionToken s = token \<and> now < session_expiresAt s)) \<longrightarrow>
      ?r = \<lparr>resp_status = 200,
         resp_data = \<lparr>valid = False, sv_userId = None, sv_email = None, sv_expiresAt = None\<rparr>,
         resp_success = True, resp_error = False,
         resp_message = ''Invalid or expired session''\<rparr>"
  proof (intro allI impI)
    fix token
    assume a: "specToken req = Some token \<and> \<not> faults SessionQuery \<and>
      (\<forall>s\<in>set (sessions d).
         \<not> (session_sessionToken s = token \<and> now < session_expiresAt s))"
    then have "selectSession d token now = None"
      by (simp add: selectSession_def find_None_conv)
    with a some[of token] show "?r = \<lparr>resp_status = 200,
         resp_data = \<lparr>valid = False, sv_userId = None, sv_email = None, sv_expiresAt = None\<rparr>,
         resp_success = True, resp_error = False,
         resp_message = ''Invalid or expired session''\<rparr>"
      by (simp add: validateSession_def okInvalid_def invalidBody_def truthy_str_def)
  qed
  have c8: "\<forall>token pre s post.
      specToken req = Some token \<and> \<not> faults SessionQuery \<and>
      sessions d = pre @ s # post \<and>
      session_sessionToken s = token \<and> now < session_expiresAt s \<and>
      (\<forall>x\<in>set pre. \<not> (session_sessionToken x = token \<and> now < session_expiresAt x)) \<longrightarrow>
      (faults UserQuery \<longrightarrow> ?r = internalError) \<and>
      (\<not> faults UserQuery \<and> (\<forall>u\<in>set (users d). user_userId u \<noteq> session_userId s) \<longrightarrow>
         ?r =
           \<lparr>resp_status = 200,
            resp_data = \<lparr>valid = False, sv_userId = None, sv_email = None,
                         sv_expiresAt = None\<rparr>,
            resp_success = True, resp_error = False, resp_message = ''User not found''\<rparr>) \<and>
      (\<forall>upre u upost.
         \<not> faults UserQuery \<and> users d = upre @ u # upost \<and>
         user_userId u = session_userId s \<and>
         (\<forall>x\<in>set upre. user_userId x \<noteq> session_userId s) \<longrightarrow>
         (toISOString (session_expiresAt s) = None \<longrightarrow> ?r = internalError) \<and>
         (\<forall>iso. toISOString (session_expiresAt s) = Some iso \<longrightarrow>
            ?r =
              \<lparr>resp_status = 200,
               resp_data = \<lparr>valid = True, sv_userId = Some (user_userId u),
                            sv_email = Some (user_email u), sv_expiresAt = Some iso\<rparr>,
               resp_success = True, resp_error = False,
               resp_message = ''Session valid''\<rparr>))"
  proof (intro allI impI, elim conjE)
    fix token pre s post
    assume t: "specToken req = Some token" and f: "\<not> faults SessionQuery"
      and sp: "sessions d = pre @ s # post"
      and m: "session_sessionToken s = token" "now < session_expiresAt s"
      and b: "\<forall>x\<in>set pre. \<not> (session_sessionToken x = token \<and> now < session_expiresAt x)"
    have sel: "selectSession d token now = Some s"
      unfolding selectSession_def using sp m b by (intro find_first[of _ pre s post]) auto
    note st = some[OF t]
    have u0: "faults UserQuery \<longrightarrow> ?r = internalError"
      using st f sel by (simp add: validateSession_def truthy_str_def)
    have u1: "\<not> faults UserQuery \<and> (\<forall>u\<in>set (users d). user_userId u \<noteq> session_userId s) \<longrightarrow>
         ?r =
           \<lparr>resp_status = 200,
            resp_data = \<lparr>valid = False, sv_userId = None, sv_email = None,
                         sv_expiresAt = None\<rparr>,
            resp_success = True, resp_error = False, resp_message = ''User not found''\<rparr>"
    proof
      assume a: "\<not> faults UserQuery \<and> (\<forall>u\<in>set (users d). user_userId u \<noteq> session_userId s)"
      then have "selectUser d (session_userId s) = None"
        by (simp add: selectUser_def find_None_conv)
      with a st f sel show "?r =
           \<lparr>resp_status = 200,
            resp_data = \<lparr>valid = False, sv_userId = None, sv_email = None,
                         sv_expiresAt = None\<rparr>,
            resp_success = True, resp_error = False, resp_message = ''User not found''\<rparr>"
        by (simp add: validateSession_def okInvalid_def invalidBody_def truthy_str_def)
    qed
    have u2: "\<forall>upre u upost.
         \<not> faults UserQuery \<and> users d = upre @ u # upost \<and>
         user_userId u = session_userId s \<and>
         (\<forall>x\<in>set upre. user_userId x \<noteq> session_userId s) \<longrightarrow>
         (toISOString (session_expiresAt s) = None \<longrightarrow> ?r = internalError) \<and>
         (\<forall>iso. toISOString (session_expiresAt s) = Some iso \<longrightarrow>
            ?r =
              \<lparr>resp_status = 200,
               resp_data = \<lparr>valid = True, sv_userId = Some (user_userId u),
                            sv_email = Some (user_email u), sv_expiresAt = Some iso\<rparr>,
               resp_success = True, resp_error = False,
               resp_message = ''Session valid''\<rparr>)"
    proof (intro allI impI, elim conjE)
      fix upre u upost
      assume fu: "\<not> faults UserQuery" and up: "users d = upre @ u # upost"
        and um: "user_userId u = session_userId s"
        and ub: "\<forall>x\<in>set upre. user_userId x \<noteq> session_userId s"
      have usel: "selectUser d (session_userId s) = Some u"
        unfolding selectUser_def using up um ub by (intro find_first[of _ upre u upost]) auto
      show "(toISOString (session_expiresAt s) = None \<longrightarrow> ?r = internalError) \<and>
         (\<forall>iso. toISOString (session_expiresAt s) = Some iso \<longrightarrow>
            ?r =
              \<lparr>resp_status = 200,
               resp_data = \<lparr>valid = True, sv_userId = Some (user_userId u),
                            sv_email = Some (user_email u), sv_expiresAt = Some iso\<rparr>,
               resp_success = True, resp_error = False,
               resp_message = ''Session valid''\<rparr>)"
        using st f sel fu usel by (simp add: validateSession_def truthy_str_def)
    qed
    from u0 u1 u2 show "(faults UserQuery \<longrightarrow> ?r = internalError) \<and>
      (\<not> faults UserQuery \<and> (\<forall>u\<in>set (users d). user_userId u \<noteq> session_userId s) \<longrightarrow>
         ?r =
           \<lparr>resp_status = 200,
            resp_data = \<lparr>valid = False, sv_userId = None, sv_email = None,
                         sv_expiresAt = None\<rparr>,
            resp_success = True, resp_error = False, resp_message = ''User not found''\<rparr>) \<and>
      (\<forall>upre u upost.
         \<not> faults UserQuery \<and> users d = upre @ u # upost \<and>
         user_userId u = session_userId s \<and>
         (\<forall>x\<in>set upre. user_userId x \<noteq> session_userId s) \<longrightarrow>
         (toISOString (session_expiresAt s) = None \<longrightarrow> ?r = internalError) \<and>
         (\<forall>iso. toISOString (session_expiresAt s) = Some iso \<longrightarrow>
            ?r =
              \<lparr>resp_status = 200,
               resp_data = \<lparr>valid = True, sv_userId = Some (user_userId u),
                            sv_email = Some (user_email u), sv_expiresAt = Some iso\<rparr>,
               resp_success = True, resp_error = False,
               resp_message = ''Session valid''\<rparr>))"
      by (intro conjI)
  qed
  have c9: "resp_status ?r = 500 \<longrightarrow> ?r = internalError \<and>
      (faults SessionQuery \<or> faults UserQuery \<or>
       (\<exists>s\<in>set (sessions d). toISOString (session_expiresAt s) = None))"
  proof
    assume a: "resp_status ?r = 500"
    have "?r = internalError \<or> resp_status ?r = 200"
      by (simp add: validateSession_def okInvalid_def split: option.splits)
    with a have e: "?r = internalError" by auto
    have "faults SessionQuery \<or> faults UserQuery \<or>
       (\<exists>s\<in>set (sessions d). toISOString (session_expiresAt s) = None)"
    proof (rule ccontr)
      assume n: "\<not> (faults SessionQuery \<or> faults UserQuery \<or>
       (\<exists>s\<in>set (sessions d). toISOString (session_expiresAt s) = None))"
      have iso: "\<And>tok s. selectSession d tok now = Some s \<Longrightarrow>
                   \<exists>y. toISOString (session_expiresAt s) = Some y"
        using n by (auto simp: selectSession_def find_Some_iff)
      have "resp_status ?r = 200"
      proof (cases "selectSession d (the (sessionTokenOf req)) now")
        case None
        with n show ?thesis by (simp add: validateSession_def okInvalid_def)
      next
        case (Some s)
        from iso[OF Some] obtain y where y: "toISOString (session_expiresAt s) = Some y" ..
        show ?thesis
          using n Some y
          by (simp add: validateSession_def okInvalid_def split: option.splits)
      qed
      with a show False by simp
    qed
    with e show "?r = internalError \<and>
      (faults SessionQuery \<or> faults UserQuery \<or>
       (\<exists>s\<in>set (sessions d). toISOString (session_expiresAt s) = None))" by simp
  qed
  have c10: "resp_status ?r = 200 \<or> resp_status ?r = 500"
    by (simp add: validateSession_def okInvalid_def internalError_def split: option.splits)
  have c11: "internalError =
     \<lparr>resp_status = 500,
      resp_data = \<lparr>valid = False, sv_userId = None, sv_email = None, sv_expiresAt = None\<rparr>,
      resp_success = False, resp_error = True,
      resp_message = ''Session validation failed''\<rparr>"
    by (simp add: internalError_def invalidBody_def)
  note sc = specToken_cases[of req]
  show ?thesis
    by (intro conjI) (rule sc[THEN conjunct1], rule sc[THEN conjunct2, THEN conjunct1],
       rule sc[THEN conjunct2, THEN conjunct2, THEN conjunct1],
       rule sc[THEN conjunct2, THEN conjunct2, THEN conjunct2],
       rule c5, rule c6, rule c7, rule c8, rule c9, rule c10, rule c11)
qed

text \<open>
  Scenario S6 with the token in a Bearer header; a cookie that names no session, which
  wins over the header; a session that has expired; and a Bearer header with nothing
  after the prefix.
\<close>

theorem validateSession_responses_witness:
  "validateSession noFaults exampleISO 1000 exampleDb
     \<lparr>cookie_p_session = None, header_authorization = Some ''Bearer abc''\<rparr> =
     \<lparr>resp_status = 200,
      resp_data = \<lparr>valid = True, sv_userId = Some ''u1'', sv_email = Some ''a@x'',
                   sv_expiresAt = Some ''1970-01-01T00:00:02.000Z''\<rparr>,
      resp_success = True, resp_error = False, resp_message = ''Session valid''\<rparr> \<and>
   validateSession noFaults exampleISO 1000 exampleDb
     \<lparr>cookie_p_session = Some ''wrong'', header_authorization = Some ''Bearer abc''\<rparr> =
     \<lparr>resp_status = 200,
      resp_data = \<lparr>valid = False, sv_userId = None, sv_email = None, sv_expiresAt = None\<rparr>,
      resp_success = True, resp_error = False,
      resp_message = ''Invalid or expired session''\<rparr> \<and>
   validateSession noFaults exampleISO 2000 exampleDb
     \<lparr>cookie_p_session = Some ''abc'', header_authorization = None\<rparr> =
     \<lparr>resp_status = 200,
      resp_data = \<lparr>valid = False, sv_userId = None, sv_email = None, sv_expiresAt = None\<rparr>,
      resp_success = True, resp_error = False,
      resp_message = ''Invalid or expired session''\<rparr> \<and>
   validateSession noFaults exampleISO 1000 exampleDb
     \<lparr>cookie_p_session = None, header_authorization = Some ''Bearer ''\<rparr> =
     \<lparr>resp_status = 200,
      resp_data = \<lparr>valid = False, sv_userId = None, sv_email = None, sv_expiresAt = None\<rparr>,
      resp_success = True, resp_error = False,
      resp_message = ''No session token provided''\<rparr>"
proof -
  let ?bearer = "\<lparr>cookie_p_session = None, header_authorization = Some ''Bearer abc''\<rparr>"
  let ?wrong = "\<lparr>cookie_p_session = Some ''wrong'', header_authorization = Some ''Bearer abc''\<rparr>"
  let ?late = "\<lparr>cookie_p_session = Some ''abc'', header_authorization = None\<rparr>"
  let ?empty = "\<lparr>cookie_p_session = None, header_authorization = Some ''Bearer ''\<rparr>"
  let ?s = "\<lparr>session_sessionId = ''s1'', session_sessionToken = ''abc'',
             session_userId = ''u1'', session_expiresAt = 2000\<rparr>"
  let ?u = "\<lparr>user_userId = ''u1'', user_email = ''a@x''\<rparr>"
  note T1 = validateSession_responses[of ?bearer noFaults exampleISO 1000 exampleDb]
  note header = T1[THEN conjunct2, THEN conjunct2, THEN conjunct1, rule_format]
  note found = T1[THEN conjunct2, THEN conjunct2, THEN conjunct2, THEN conjunct2,
                  THEN conjunct2, THEN conjunct2, THEN conjunct2, THEN conjunct1, rule_format]
  have h1: "(cookie_p_session ?bearer = None \<or> cookie_p_session ?bearer = Some []) \<and>
      header_authorization ?bearer = Some ([] @ ''Bearer '' @ ''abc'') \<and>
      (\<forall>a b. [] @ ''Bearer '' @ ''abc'' = a @ ''Bearer '' @ b \<longrightarrow> length ([]::string) \<le> length a)"
    by simp
  have t1: "specToken ?bearer = Some ''abc''"
    using header[OF h1] by simp
  have s1: "specToken ?bearer = Some ''abc'' \<and> \<not> noFaults SessionQuery \<and>
      sessions exampleDb = [] @ ?s # [] \<and>
      session_sessionToken ?s = ''abc'' \<and> 1000 < session_expiresAt ?s \<and>
      (\<forall>x\<in>set []. \<not> (session_sessionToken x = ''abc'' \<and> 1000 < session_expiresAt x))"
    using t1 by (simp add: noFaults_def example_defs)
  have u1: "\<not> noFaults UserQuery \<and> users exampleDb = [] @ ?u # [] \<and>
         user_userId ?u = session_userId ?s \<and>
         (\<forall>x\<in>set []. user_userId x \<noteq> session_userId ?s)"
    by (simp add: noFaults_def example_defs)
  have i1: "exampleISO (session_expiresAt ?s) = Some ''1970-01-01T00:00:02.000Z''"
    by (simp add: exampleISO_def)
  note user = found[OF s1, THEN conjunct2, THEN conjunct2, rule_format, OF u1,
                    THEN conjunct2, rule_format, OF i1]
  have r1: "validateSession noFaults exampleISO 1000 exampleDb ?bearer =
     \<lparr>resp_status = 200,
      resp_data = \<lparr>valid = True, sv_userId = Some ''u1'', sv_email = Some ''a@x'',
                   sv_expiresAt = Some ''1970-01-01T00:00:02.000Z''\<rparr>,
      resp_success = True, resp_error = False, resp_message = ''Session valid''\<rparr>"
    using user by simp
  have r2: "validateSession noFaults exampleISO 1000 exampleDb ?wrong =
     \<lparr>resp_status = 200,
      resp_data = \<lparr>valid = False, sv_userId = None, sv_email = None, sv_expiresAt = None\<rparr>,
      resp_success = True, resp_error = False,
      resp_message = ''Invalid or expired session''\<rparr>"
    by (simp add: session_defs example_defs)
  have r3: "validateSession noFaults exampleISO 2000 exampleDb ?late =
     \<lparr>resp_status = 200,
      resp_data = \<lparr>valid = False, sv_userId = None, sv_email = None, sv_expiresAt = None\<rparr>,
      resp_success = True, resp_error = False,
      resp_message = ''Invalid or expired session''\<rparr>"
    by (simp add: session_defs example_defs)
  have r4: "validateSession noFaults exampleISO 1000 exampleDb ?empty =
     \<lparr>resp_status = 200,
      resp_data = \<lparr>valid = False, sv_userId = None, sv_email = None, sv_expiresAt = None\<rparr>,
      resp_success = True, resp_error = False,
      resp_message = ''No session token provided''\<rparr>"
    by (simp add: session_defs example_defs)
  from r1 r2 r3 r4 show ?thesis by (intro conjI)
qed

end
